theory Spec2Isabelle
  imports Main "HOL-Library.AList"
begin

section \<open>The process-orchestration server (server.js)\<close>

text \<open>
  The server keeps one piece of mutable state, the Map \<open>runningProcesses\<close>, and reacts to
  events of the Node.js event loop: frames arriving on a WebSocket connection and events of
  the child processes it has spawned. Every listener runs to completion before the next
  event is taken, so the server is modelled as a step function on an explicit state. What a
  listener does to the outside (a call of \<open>ws.send\<close>, of \<open>spawn\<close>, of \<open>kill\<close>) is returned as a
  list of outputs, in program order. What the outside answers during a listener (the
  platform, the file system, the result of \<open>spawn\<close>) is read from a \<open>world\<close> given with the
  event. Calls of \<open>console.log\<close> and the static-file part of the HTTP server are left out.
\<close>

subsection \<open>JavaScript values and JSON messages\<close>

datatype jsval =
    Undefined
  | Null
  | Boolean bool
  | Num int
  | Str string
  | Arr "jsval list"
  | Obj "(string \<times> jsval) list"

type_synonym msg = "(string \<times> jsval) list"

text \<open>\<open>JSON.stringify\<close> of an object literal: a property whose value is \<open>undefined\<close> is dropped.\<close>

definition stringify :: "(string \<times> jsval) list \<Rightarrow> msg" where
  "stringify props = filter (\<lambda>(k, v). v \<noteq> Undefined) props"

text \<open>Decimal text of a number, as a template literal prints it.\<close>

function show_nat :: "nat \<Rightarrow> string" where
  "show_nat n = (if n < 10 then [''0123456789'' ! n]
                 else show_nat (n div 10) @ [''0123456789'' ! (n mod 10)])"
  by pat_completeness auto
termination
  by (relation "measure id") auto

definition show_int :: "int \<Rightarrow> string" where
  "show_int i = (if i < 0 then CHR ''-'' # show_nat (nat (- i)) else show_nat (nat i))"

text \<open>
  The text of a value in a template literal (\<open>ToString\<close>): an array prints its elements
  separated by commas, \<open>null\<close> and \<open>undefined\<close> elements as nothing; an object prints as
  \<open>[object Object]\<close>. Numbers are the integers, printed in decimal.
\<close>

fun join_commas :: "string list \<Rightarrow> string" where
  "join_commas [] = []"
| "join_commas [x] = x"
| "join_commas (x # y # ys) = x @ '','' @ join_commas (y # ys)"

fun to_string :: "jsval \<Rightarrow> string" where
  "to_string Undefined = ''undefined''"
| "to_string Null = ''null''"
| "to_string (Boolean b) = (if b then ''true'' else ''false'')"
| "to_string (Num n) = show_int n"
| "to_string (Str s) = s"
| "to_string (Arr xs) =
     join_commas (map (\<lambda>x. if x = Undefined \<or> x = Null then [] else to_string x) xs)"
| "to_string (Obj props) = ''[object Object]''"

text \<open>\<open>String.prototype.includes\<close>: \<open>t\<close> occurs in \<open>s\<close> as a contiguous substring.\<close>

fun str_includes :: "string \<Rightarrow> string \<Rightarrow> bool" where
  "str_includes [] t = (t = [])"
| "str_includes (c # cs) t = (take (length t) (c # cs) = t \<or> str_includes cs t)"

text \<open>\<open>command || fallback\<close>: an absent or empty command is falsy.\<close>

definition or_default :: "string option \<Rightarrow> string \<Rightarrow> string" where
  "or_default c d = (case c of None \<Rightarrow> d | Some t \<Rightarrow> if t = [] then d else t)"

subsection \<open>Environment, outputs and state\<close>

text \<open>
  \<open>spawn\<close> either throws (the exception's message) or returns a child handle, whose \<open>pid\<close>
  is undefined when the process could not be launched; that failure is reported later by
  the child's \<open>error\<close> event. \<open>path_join\<close> is \<open>path.join\<close> on strings; called with an
  argument that is not a string it throws a TypeError, whose message is
  \<open>path_join_error\<close> of that argument.
\<close>

datatype spawn_result = Throws string | Child "nat option"

record world =
  platform :: string
  path_join :: "string \<Rightarrow> string \<Rightarrow> string"
  path_join_error :: "jsval \<Rightarrow> string"
  existsSync :: "string \<Rightarrow> bool"
  spawn :: spawn_result

datatype spawn_opt = Cwd string | Env_FORCE_COLOR | Detached | Shell

text \<open>
  \<open>Send ws m\<close>: \<open>ws.send\<close> of the JSON text of \<open>m\<close> on connection \<open>ws\<close>;
  \<open>Spawn file args opts\<close>: a call of \<open>spawn\<close>; \<open>Kill child signal\<close>: \<open>child.kill(signal)\<close>.
\<close>

datatype effect =
    Send nat msg
  | Spawn string "jsval list" "spawn_opt list"
  | Kill nat string

record proc =
  name :: string
  path :: string
  pid :: "nat option"
  process :: nat

text \<open>
  The listeners a child handle got from the function that spawned it, with the variables
  their closures captured: \<open>runProject\<close> attaches stdout, stderr, error and close listeners
  (capturing \<open>ws\<close> and \<open>projectPath\<close>), \<open>cleanProject\<close> a close listener only (capturing \<open>ws\<close>,
  \<open>projectPath\<close> and \<open>projectName\<close>), \<open>stopProject\<close> and \<open>openFolder\<close> none.
\<close>

datatype listeners =
    RunListeners nat string
  | CleanListeners nat string string
  | NoListeners

text \<open>
  \<open>runningProcesses\<close> is a JavaScript Map: an association list in insertion order, read with
  \<open>map_of\<close>, written with \<open>AList.update\<close> (a present key keeps its place, a new one goes to
  the end) and \<open>AList.delete\<close>. \<open>clients\<close> are the connections of \<open>wss.clients\<close> whose
  \<open>readyState\<close> is \<open>OPEN\<close>. \<open>children\<close> maps the child handles created so far (numbered
  \<open>0 ..< spawned\<close>) to their listeners. \<open>crashed\<close>: the Node.js process has ended on an
  uncaught exception.
\<close>

record state =
  runningProcesses :: "(string \<times> proc) list"
  clients :: "nat list"
  children :: "nat \<rightharpoonup> listeners"
  spawned :: nat
  crashed :: bool

definition init :: state where
  "init = \<lparr>runningProcesses = [], clients = [], children = Map.empty, spawned = 0,
           crashed = False\<rparr>"

text \<open>
  What a function of the server returns: its outputs, the state it leaves, and the message
  of the exception it threw, if it threw.
\<close>

type_synonym ret = "effect list \<times> state \<times> string option"

definition emit :: "effect list \<Rightarrow> ret \<Rightarrow> ret" where
  "emit outs r = (outs @ fst r, snd r)"

definition ws_send :: "nat \<Rightarrow> (string \<times> jsval) list \<Rightarrow> effect" where
  "ws_send ws props = Send ws (stringify props)"

definition new_child :: "listeners \<Rightarrow> state \<Rightarrow> state" where
  "new_child l s = s\<lparr>children := (children s)(spawned s \<mapsto> l), spawned := Suc (spawned s)\<rparr>"

subsection \<open>broadcastStatus and /api/running\<close>

definition pid_val :: "nat option \<Rightarrow> jsval" where
  "pid_val p = (case p of None \<Rightarrow> Undefined | Some n \<Rightarrow> Num (int n))"

definition running_list :: "state \<Rightarrow> jsval list" where
  "running_list s =
     map (\<lambda>(id, proc). Obj (stringify [(''id'', Str id), (''name'', Str (name proc)),
                                         (''path'', Str (path proc)), (''pid'', pid_val (pid proc))]))
         (runningProcesses s)"

definition broadcastStatus :: "state \<Rightarrow> effect list" where
  "broadcastStatus s =
     map (\<lambda>client. Send client (stringify [(''type'', Str ''status''),
                                             (''running'', Arr (running_list s))]))
         (clients s)"

definition api_running :: "state \<Rightarrow> jsval" where
  "api_running s = Arr (running_list s)"

subsection \<open>runProject\<close>

function runProject :: "world \<Rightarrow> nat \<Rightarrow> string \<Rightarrow> string \<Rightarrow> string \<Rightarrow> state \<Rightarrow> ret" where
  "runProject w ws projectPath projectName cmd s =
     (if map_of (runningProcesses s) projectPath \<noteq> None then
        ([ws_send ws [(''type'', Str ''error''), (''projectPath'', Str projectPath),
                      (''message'', Str (projectName @ '' is already running! Stop it first.''))]],
         s, None)
      else if \<not> existsSync w (path_join w projectPath ''node_modules'')
              \<and> \<not> str_includes cmd ''install'' then
        emit [ws_send ws [(''type'', Str ''warning''), (''projectPath'', Str projectPath),
                          (''message'', Str ''node_modules not found. Installing dependencies first...'')]]
          (runProject w ws projectPath projectName ''npm install'' s)
      else
        emit [ws_send ws [(''type'', Str ''start''), (''projectPath'', Str projectPath),
                          (''projectName'', Str projectName), (''command'', Str cmd),
                          (''message'', Str (''Starting '' @ projectName @ ''...''))],
              Spawn (if platform w = ''win32'' then ''cmd.exe'' else ''/bin/sh'')
                    [Str (if platform w = ''win32'' then ''/c'' else ''-c''), Str cmd]
                    [Cwd projectPath, Env_FORCE_COLOR]]
          (case spawn w of
             Throws e \<Rightarrow> ([], s, Some e)
           | Child child_pid \<Rightarrow>
               (let s1 = s\<lparr>runningProcesses :=
                             AList.update projectPath
                               \<lparr>name = projectName, path = projectPath, pid = child_pid,
                                process = spawned s\<rparr>
                               (runningProcesses s)\<rparr>
                in (broadcastStatus s1, new_child (RunListeners ws projectPath) s1, None))))"
  by pat_completeness auto

text \<open>
  The recursive call is made only with a command that does not contain \<open>install\<close>, and
  passes \<open>npm install\<close>, which does: the measure falls from 1 to 0.
\<close>

termination runProject
  by (relation "measure (\<lambda>(w, ws, projectPath, projectName, cmd, s).
                           if str_includes cmd ''install'' then 0 else 1)")
     auto

declare runProject.simps [simp del]

text \<open>
  The part of \<open>runProject\<close> after its two guards (the start event, the spawn, the new
  entry, the broadcast, the listeners), as a function of its own: \<open>runProject\<close> is shown
  below to be the guards around it.
\<close>

definition runProject_spawn ::
  "world \<Rightarrow> nat \<Rightarrow> string \<Rightarrow> string \<Rightarrow> string \<Rightarrow> state \<Rightarrow> ret" where
  "runProject_spawn w ws projectPath projectName cmd s =
     emit [ws_send ws [(''type'', Str ''start''), (''projectPath'', Str projectPath),
                       (''projectName'', Str projectName), (''command'', Str cmd),
                       (''message'', Str (''Starting '' @ projectName @ ''...''))],
           Spawn (if platform w = ''win32'' then ''cmd.exe'' else ''/bin/sh'')
                 [Str (if platform w = ''win32'' then ''/c'' else ''-c''), Str cmd]
                 [Cwd projectPath, Env_FORCE_COLOR]]
       (case spawn w of
          Throws e \<Rightarrow> ([], s, Some e)
        | Child child_pid \<Rightarrow>
            (let s1 = s\<lparr>runningProcesses :=
                          AList.update projectPath
                            \<lparr>name = projectName, path = projectPath, pid = child_pid,
                             process = spawned s\<rparr>
                            (runningProcesses s)\<rparr>
             in (broadcastStatus s1, new_child (RunListeners ws projectPath) s1, None)))"

text \<open>The listeners \<open>runProject\<close> attaches to the child.\<close>

definition run_on_stdout :: "nat \<Rightarrow> string \<Rightarrow> string \<Rightarrow> state \<Rightarrow> effect list \<times> state" where
  "run_on_stdout ws projectPath chunk s =
     ([ws_send ws [(''type'', Str ''stdout''), (''projectPath'', Str projectPath),
                   (''data'', Str chunk)]], s)"

definition run_on_stderr :: "nat \<Rightarrow> string \<Rightarrow> string \<Rightarrow> state \<Rightarrow> effect list \<times> state" where
  "run_on_stderr ws projectPath chunk s =
     ([ws_send ws [(''type'', Str ''stderr''), (''projectPath'', Str projectPath),
                   (''data'', Str chunk)]], s)"

definition run_on_error :: "nat \<Rightarrow> string \<Rightarrow> string \<Rightarrow> state \<Rightarrow> effect list \<times> state" where
  "run_on_error ws projectPath err s =
     (let s1 = s\<lparr>runningProcesses := AList.delete projectPath (runningProcesses s)\<rparr>
      in (ws_send ws [(''type'', Str ''error''), (''projectPath'', Str projectPath),
                      (''message'', Str err)]
          # broadcastStatus s1, s1))"

text \<open>The exit code is a number, or \<open>null\<close> when a signal ended the process.\<close>

definition code_val :: "int option \<Rightarrow> jsval" where
  "code_val c = (case c of None \<Rightarrow> Null | Some n \<Rightarrow> Num n)"

definition code_text :: "int option \<Rightarrow> string" where
  "code_text c = (case c of None \<Rightarrow> ''null'' | Some n \<Rightarrow> show_int n)"

definition run_on_close :: "nat \<Rightarrow> string \<Rightarrow> int option \<Rightarrow> state \<Rightarrow> effect list \<times> state" where
  "run_on_close ws projectPath code s =
     (let s1 = s\<lparr>runningProcesses := AList.delete projectPath (runningProcesses s)\<rparr>
      in (ws_send ws [(''type'', Str ''exit''), (''projectPath'', Str projectPath),
                      (''code'', code_val code),
                      (''message'', Str (if code = Some 0 then ''Process completed successfully''
                                         else ''Process exited with code '' @ code_text code))]
          # broadcastStatus s1, s1))"

subsection \<open>stopProject, openFolder, cleanProject\<close>

text \<open>
  On Windows \<open>stopProject\<close> spawns \<open>taskkill\<close>, a call that can throw like any \<open>spawn\<close> and
  that creates a child handle without listeners; elsewhere it calls \<open>kill\<close> on the stored
  handle, which returns. The entry is deleted whatever the process does with the signal.
\<close>

definition stopProject :: "world \<Rightarrow> nat \<Rightarrow> string \<Rightarrow> state \<Rightarrow> ret" where
  "stopProject w ws projectPath s =
     (case map_of (runningProcesses s) projectPath of
        None \<Rightarrow>
          ([ws_send ws [(''type'', Str ''error''), (''projectPath'', Str projectPath),
                        (''message'', Str ''Process not found or already stopped'')]],
           s, None)
      | Some proc \<Rightarrow>
          emit [ws_send ws [(''type'', Str ''info''), (''projectPath'', Str projectPath),
                            (''message'', Str (''Stopping '' @ name proc @ ''...''))],
                if platform w = ''win32''
                then Spawn ''taskkill'' [Str ''/pid'', pid_val (pid proc), Str ''/f'', Str ''/t''] []
                else Kill (process proc) ''SIGTERM'']
            (case (if platform w = ''win32'' then spawn w else Child None) of
               Throws e \<Rightarrow> ([], s, Some e)
             | Child _ \<Rightarrow>
                 (let s0 = (if platform w = ''win32'' then new_child NoListeners s else s);
                      s1 = s0\<lparr>runningProcesses := AList.delete projectPath (runningProcesses s0)\<rparr>
                  in (broadcastStatus s1
                      @ [ws_send ws [(''type'', Str ''stopped''), (''projectPath'', Str projectPath),
                                     (''message'', Str (name proc @ '' stopped''))]],
                      s1, None))))"

definition openFolder :: "world \<Rightarrow> nat \<Rightarrow> string \<Rightarrow> state \<Rightarrow> ret" where
  "openFolder w ws projectPath s =
     emit [Spawn (if platform w = ''win32'' then ''explorer''
                  else if platform w = ''darwin'' then ''open'' else ''xdg-open'')
                 [Str projectPath] [Detached]]
       (case spawn w of
          Throws e \<Rightarrow> ([], s, Some e)
        | Child _ \<Rightarrow>
            ([ws_send ws [(''type'', Str ''info''), (''projectPath'', Str projectPath),
                          (''message'', Str (''Opened folder: '' @ projectPath))]],
             new_child NoListeners s, None))"

definition cleanProject :: "world \<Rightarrow> nat \<Rightarrow> string \<Rightarrow> string \<Rightarrow> state \<Rightarrow> ret" where
  "cleanProject w ws projectPath projectName s =
     (let nmPath = path_join w projectPath ''node_modules'' in
      if \<not> existsSync w nmPath then
        ([ws_send ws [(''type'', Str ''info''), (''projectPath'', Str projectPath),
                      (''message'', Str (projectName @ '' has no node_modules to clean''))]],
         s, None)
      else
        emit [ws_send ws [(''type'', Str ''info''), (''projectPath'', Str projectPath),
                          (''message'', Str (''Cleaning node_modules from '' @ projectName @ ''...''))],
              Spawn (if platform w = ''win32'' then ''rmdir'' else ''rm'')
                    (if platform w = ''win32'' then [Str ''/s'', Str ''/q'', Str nmPath]
                     else [Str ''-rf'', Str nmPath])
                    [Shell]]
          (case spawn w of
             Throws e \<Rightarrow> ([], s, Some e)
           | Child _ \<Rightarrow> ([], new_child (CleanListeners ws projectPath projectName) s, None)))"

text \<open>The close listener \<open>cleanProject\<close> attaches to the removal process.\<close>

definition clean_on_close ::
  "nat \<Rightarrow> string \<Rightarrow> string \<Rightarrow> int option \<Rightarrow> state \<Rightarrow> effect list \<times> state" where
  "clean_on_close ws projectPath projectName code s =
     (if code = Some 0 then
        ([ws_send ws [(''type'', Str ''success''), (''projectPath'', Str projectPath),
                      (''message'', Str (''Cleaned node_modules from '' @ projectName))]], s)
      else
        ([ws_send ws [(''type'', Str ''error''), (''projectPath'', Str projectPath),
                      (''message'', Str (''Failed to clean '' @ projectName))]], s))"

subsection \<open>The realtime channel\<close>

text \<open>
  A command message, after \<open>JSON.parse\<close> and the destructuring in \<open>handleCommand\<close>, in the
  protocol's shape: \<open>action\<close>, \<open>projectPath\<close> and \<open>projectName\<close> are strings, \<open>command\<close> is a
  string or absent.
\<close>

record command_msg =
  action :: string
  projectPath :: string
  projectName :: string
  command :: "string option"

text \<open>
  \<open>handleCommand\<close> does not validate the data, so \<open>projectPath\<close> can also be absent
  (\<open>undefined\<close> after the destructuring) or a JSON value of another type. \<open>other_msg\<close> is a
  command message whose \<open>projectPath\<close> is not a string.
\<close>

datatype nonstring =
    Absent
  | IsNull
  | IsBoolean bool
  | IsNum int
  | IsArr "jsval list"
  | IsObj "(string \<times> jsval) list"

fun js_of :: "nonstring \<Rightarrow> jsval" where
  "js_of Absent = Undefined"
| "js_of IsNull = Null"
| "js_of (IsBoolean b) = Boolean b"
| "js_of (IsNum n) = Num n"
| "js_of (IsArr xs) = Arr xs"
| "js_of (IsObj props) = Obj props"

record other_msg =
  other_action :: string
  other_path :: nonstring
  other_name :: string
  other_command :: "string option"

text \<open>
  An inbound frame: \<open>JSON.parse\<close> throws (with that message) or yields the data, whose
  \<open>projectPath\<close> is a string (\<open>Data\<close>) or not (\<open>DataOther\<close>).
\<close>

datatype frame = Unparsable string | Data command_msg | DataOther other_msg

definition handleCommand :: "world \<Rightarrow> nat \<Rightarrow> command_msg \<Rightarrow> state \<Rightarrow> ret" where
  "handleCommand w ws d s =
     (if action d = ''run'' then
        runProject w ws (projectPath d) (projectName d) (or_default (command d) ''npm run dev'') s
      else if action d = ''deploy'' then
        runProject w ws (projectPath d) (projectName d) (or_default (command d) ''npm run deploy'') s
      else if action d = ''install'' then
        runProject w ws (projectPath d) (projectName d) ''npm install'' s
      else if action d = ''stop'' then
        stopProject w ws (projectPath d) s
      else if action d = ''open'' then
        openFolder w ws (projectPath d) s
      else if action d = ''clean'' then
        cleanProject w ws (projectPath d) (projectName d) s
      else
        ([ws_send ws [(''type'', Str ''error''),
                      (''message'', Str (''Unknown action: '' @ action d))]], s, None))"

text \<open>
  \<open>handleCommand\<close> on data whose \<open>projectPath\<close> is the value \<open>v\<close>, not a string. Every key of
  \<open>runningProcesses\<close> is a string, since the only \<open>set\<close> comes after \<open>path.join\<close> has accepted
  the key; so \<open>has(v)\<close> is false and \<open>get(v)\<close> is undefined.
  \<^item> \<open>run\<close>, \<open>deploy\<close>, \<open>install\<close>: \<open>runProject\<close> passes its first guard without sending anything
    and \<open>path.join\<close> throws.
  \<^item> \<open>stop\<close>: \<open>stopProject\<close> finds no entry and sends its \<open>error\<close> event, built with
    \<open>projectPath: v\<close>.
  \<^item> \<open>open\<close>: \<open>openFolder\<close> calls \<open>spawn\<close> with the argument \<open>v\<close>, then sends its \<open>info\<close> event,
    built with \<open>projectPath: v\<close>.
  \<^item> \<open>clean\<close>: \<open>cleanProject\<close> begins with \<open>path.join\<close>, which throws.
\<close>

definition handleCommand_other :: "world \<Rightarrow> nat \<Rightarrow> other_msg \<Rightarrow> state \<Rightarrow> ret" where
  "handleCommand_other w ws d s =
     (let v = js_of (other_path d) in
      if other_action d = ''run'' \<or> other_action d = ''deploy'' \<or> other_action d = ''install''
      then ([], s, Some (path_join_error w v))
      else if other_action d = ''stop'' then
        ([ws_send ws [(''type'', Str ''error''), (''projectPath'', v),
                      (''message'', Str ''Process not found or already stopped'')]],
         s, None)
      else if other_action d = ''open'' then
        emit [Spawn (if platform w = ''win32'' then ''explorer''
                     else if platform w = ''darwin'' then ''open'' else ''xdg-open'')
                    [v] [Detached]]
          (case spawn w of
             Throws e \<Rightarrow> ([], s, Some e)
           | Child _ \<Rightarrow>
               ([ws_send ws [(''type'', Str ''info''), (''projectPath'', v),
                             (''message'', Str (''Opened folder: '' @ to_string v))]],
                new_child NoListeners s, None))
      else if other_action d = ''clean'' then ([], s, Some (path_join_error w v))
      else
        ([ws_send ws [(''type'', Str ''error''),
                      (''message'', Str (''Unknown action: '' @ other_action d))]], s, None))"

text \<open>The \<open>message\<close> listener of a connection, with its try/catch.\<close>

definition on_message :: "world \<Rightarrow> nat \<Rightarrow> frame \<Rightarrow> state \<Rightarrow> effect list \<times> state" where
  "on_message w ws fr s =
     (case fr of
        Unparsable e \<Rightarrow> ([ws_send ws [(''type'', Str ''error''), (''message'', Str e)]], s)
      | Data d \<Rightarrow>
          (case handleCommand w ws d s of
             (outs, s', None) \<Rightarrow> (outs, s')
           | (outs, s', Some e) \<Rightarrow>
               (outs @ [ws_send ws [(''type'', Str ''error''), (''message'', Str e)]], s'))
      | DataOther d \<Rightarrow>
          (case handleCommand_other w ws d s of
             (outs, s', None) \<Rightarrow> (outs, s')
           | (outs, s', Some e) \<Rightarrow>
               (outs @ [ws_send ws [(''type'', Str ''error''), (''message'', Str e)]], s')))"

subsection \<open>The event loop\<close>

datatype input =
    Connection nat
  | Disconnect nat
  | Message nat frame
  | ChildStdout nat string
  | ChildStderr nat string
  | ChildError nat string
  | ChildClose nat "int option"

text \<open>
  One turn of the event loop. An event of a child goes to the listener attached for it, if
  there is one; an \<open>error\<close> event on a child without an error listener is thrown by the
  event emitter and, uncaught, ends the Node.js process.
\<close>

definition step :: "world \<Rightarrow> input \<Rightarrow> state \<Rightarrow> effect list \<times> state" where
  "step w i s =
     (if crashed s then ([], s)
      else case i of
        Connection c \<Rightarrow>
          ([], s\<lparr>clients := (if c \<in> set (clients s) then clients s else clients s @ [c])\<rparr>)
      | Disconnect c \<Rightarrow> ([], s\<lparr>clients := removeAll c (clients s)\<rparr>)
      | Message ws fr \<Rightarrow> on_message w ws fr s
      | ChildStdout k chunk \<Rightarrow>
          (case children s k of
             Some (RunListeners ws p) \<Rightarrow> run_on_stdout ws p chunk s
           | _ \<Rightarrow> ([], s))
      | ChildStderr k chunk \<Rightarrow>
          (case children s k of
             Some (RunListeners ws p) \<Rightarrow> run_on_stderr ws p chunk s
           | _ \<Rightarrow> ([], s))
      | ChildError k err \<Rightarrow>
          (case children s k of
             Some (RunListeners ws p) \<Rightarrow> run_on_error ws p err s
           | Some _ \<Rightarrow> ([], s\<lparr>crashed := True\<rparr>)
           | None \<Rightarrow> ([], s))
      | ChildClose k code \<Rightarrow>
          (case children s k of
             Some (RunListeners ws p) \<Rightarrow> run_on_close ws p code s
           | Some (CleanListeners ws p n) \<Rightarrow> clean_on_close ws p n code s
           | _ \<Rightarrow> ([], s)))"

text \<open>A sequence of events, each with the world it meets.\<close>

fun run :: "(world \<times> input) list \<Rightarrow> state \<Rightarrow> effect list \<times> state" where
  "run [] s = ([], s)"
| "run ((w, i) # rest) s =
     (let (o1, s1) = step w i s; (o2, s2) = run rest s1 in (o1 @ o2, s2))"

subsection \<open>Notions used to state the properties\<close>

text \<open>The number of live entries for a path.\<close>

definition entries_for :: "string \<Rightarrow> state \<Rightarrow> nat" where
  "entries_for p s = length (filter (\<lambda>e. fst e = p) (runningProcesses s))"

text \<open>Every child handle that has listeners was created before: handles are not reused.\<close>

definition handles_fresh :: "state \<Rightarrow> bool" where
  "handles_fresh s = (dom (children s) \<subseteq> {..<spawned s})"

text \<open>Property access on a JSON value; an absent property reads as \<open>undefined\<close>.\<close>

definition field :: "string \<Rightarrow> jsval \<Rightarrow> jsval" where
  "field k v = (case v of
                  Obj props \<Rightarrow> (case map_of props k of Some x \<Rightarrow> x | None \<Rightarrow> Undefined)
                | _ \<Rightarrow> Undefined)"

definition carries :: "string \<Rightarrow> msg \<Rightarrow> bool" where
  "carries k m = (k \<in> fst ` set m)"

text \<open>
  An effect is \<open>addressed\<close> when it is not a send, or sends a \<open>status\<close> event, or sends an
  event with a \<open>projectPath\<close> property.
\<close>

definition addressed :: "effect \<Rightarrow> bool" where
  "addressed e = (case e of
                    Send c m \<Rightarrow> map_of m ''type'' = Some (Str ''status'') \<or> carries ''projectPath'' m
                  | _ \<Rightarrow> True)"

definition is_spawn :: "effect \<Rightarrow> bool" where
  "is_spawn e = (case e of Spawn f args opts \<Rightarrow> True | _ \<Rightarrow> False)"

definition is_status :: "effect \<Rightarrow> bool" where
  "is_status e = (case e of Send c m \<Rightarrow> map_of m ''type'' = Some (Str ''status'') | _ \<Rightarrow> False)"

definition is_message :: "input \<Rightarrow> bool" where
  "is_message i = (case i of Message ws fr \<Rightarrow> True | _ \<Rightarrow> False)"

text \<open>
  \<open>ends p s i\<close>: in state \<open>s\<close> the event \<open>i\<close> is a \<open>stop\<close> command for the path \<open>p\<close>, or the
  \<open>close\<close> event (exit) or the \<open>error\<close> event of a child that \<open>runProject\<close> spawned for \<open>p\<close>.
  \<open>undisturbed p tr s\<close>: no event of the run \<open>tr\<close> from \<open>s\<close> is one of these.
\<close>

definition ends :: "string \<Rightarrow> state \<Rightarrow> input \<Rightarrow> bool" where
  "ends p s i =
     (case i of
        Message ws fr \<Rightarrow>
          (case fr of Data d \<Rightarrow> action d = ''stop'' \<and> projectPath d = p | _ \<Rightarrow> False)
      | ChildClose k code \<Rightarrow>
          (case children s k of Some (RunListeners ws q) \<Rightarrow> q = p | _ \<Rightarrow> False)
      | ChildError k err \<Rightarrow>
          (case children s k of Some (RunListeners ws q) \<Rightarrow> q = p | _ \<Rightarrow> False)
      | _ \<Rightarrow> False)"

fun undisturbed :: "string \<Rightarrow> (world \<times> input) list \<Rightarrow> state \<Rightarrow> bool" where
  "undisturbed p [] s = True"
| "undisturbed p ((w, i) # rest) s = (\<not> ends p s i \<and> undisturbed p rest (snd (step w i s)))"

text \<open>Worlds and commands for the concrete runs below.\<close>

definition posix :: "bool \<Rightarrow> spawn_result \<Rightarrow> world" where
  "posix has_node_modules r =
     \<lparr>platform = ''linux'', path_join = (\<lambda>a b. a @ ''/'' @ b),
      path_join_error =
        (\<lambda>v. ''The path argument must be of type string. Received '' @ to_string v),
      existsSync = (\<lambda>f. has_node_modules), spawn = r\<rparr>"

definition cmd_msg :: "string \<Rightarrow> string option \<Rightarrow> command_msg" where
  "cmd_msg a c = \<lparr>action = a, projectPath = ''/p'', projectName = ''P'', command = c\<rparr>"

definition one_client :: state where
  "one_client = init\<lparr>clients := [7]\<rparr>"

section \<open>Auxiliary lemmas\<close>

text \<open>\<open>str_includes\<close> is the substring test.\<close>

lemma take_is_prefix: "(take (length t) s = t) = (\<exists>suf. s = t @ suf)"
proof
  assume "take (length t) s = t"
  then have "s = t @ drop (length t) s"
    by (metis append_take_drop_id)
  then show "\<exists>suf. s = t @ suf" ..
next
  assume "\<exists>suf. s = t @ suf"
  then show "take (length t) s = t" by auto
qed

lemma str_includes_substring: "str_includes s t = (\<exists>pre suf. s = pre @ t @ suf)"
proof (induction s)
  case Nil
  then show ?case by simp
next
  case (Cons c cs)
  have "(\<exists>pre suf. c # cs = pre @ t @ suf)
      = ((\<exists>suf. c # cs = t @ suf) \<or> (\<exists>pre suf. cs = pre @ t @ suf))"
  proof
    assume "\<exists>pre suf. c # cs = pre @ t @ suf"
    then obtain pre suf where e: "c # cs = pre @ t @ suf" by blast
    show "(\<exists>suf. c # cs = t @ suf) \<or> (\<exists>pre suf. cs = pre @ t @ suf)"
    proof (cases pre)
      case Nil
      with e show ?thesis by auto
    next
      case (Cons x xs)
      with e have "cs = xs @ t @ suf" by simp
      then show ?thesis by blast
    qed
  next
    assume "(\<exists>suf. c # cs = t @ suf) \<or> (\<exists>pre suf. cs = pre @ t @ suf)"
    then show "\<exists>pre suf. c # cs = pre @ t @ suf"
    proof
      assume "\<exists>suf. c # cs = t @ suf"
      then obtain suf where "c # cs = [] @ t @ suf" by auto
      then show ?thesis by blast
    next
      assume "\<exists>pre suf. cs = pre @ t @ suf"
      then obtain pre suf where "c # cs = (c # pre) @ t @ suf" by auto
      then show ?thesis by blast
    qed
  qed
  with Cons.IH take_is_prefix [of t "c # cs"] show ?case
    by simp
qed


lemma runProject_unfold:
  "runProject w ws p n cmd s =
     (if map_of (runningProcesses s) p \<noteq> None then
        ([ws_send ws [(''type'', Str ''error''), (''projectPath'', Str p),
                      (''message'', Str (n @ '' is already running! Stop it first.''))]],
         s, None)
      else if \<not> existsSync w (path_join w p ''node_modules'') \<and> \<not> str_includes cmd ''install'' then
        emit [ws_send ws [(''type'', Str ''warning''), (''projectPath'', Str p),
                          (''message'', Str ''node_modules not found. Installing dependencies first...'')]]
          (runProject_spawn w ws p n ''npm install'' s)
      else runProject_spawn w ws p n cmd s)"
proof -
  have inst: "str_includes ''npm install'' ''install''"
    by simp
  have inner: "map_of (runningProcesses s) p = None \<Longrightarrow>
      runProject w ws p n ''npm install'' s = runProject_spawn w ws p n ''npm install'' s"
    by (subst runProject.simps) (simp only: inst runProject_spawn_def, simp)
  show ?thesis
    by (subst runProject.simps) (simp add: inner runProject_spawn_def)
qed

lemma runProject_spawn_effects:
  "fst (runProject_spawn w ws p n cmd s) =
     [ws_send ws [(''type'', Str ''start''), (''projectPath'', Str p),
                  (''projectName'', Str n), (''command'', Str cmd),
                  (''message'', Str (''Starting '' @ n @ ''...''))],
      Spawn (if platform w = ''win32'' then ''cmd.exe'' else ''/bin/sh'')
            [Str (if platform w = ''win32'' then ''/c'' else ''-c''), Str cmd]
            [Cwd p, Env_FORCE_COLOR]]
     @ (case spawn w of Throws e \<Rightarrow> []
        | Child cp \<Rightarrow> broadcastStatus (s\<lparr>runningProcesses :=
              AList.update p \<lparr>name = n, path = p, pid = cp, process = spawned s\<rparr> (runningProcesses s)\<rparr>))"
  by (simp add: runProject_spawn_def emit_def Let_def split: spawn_result.split)

lemma runProject_spawn_state:
  "fst (snd (runProject_spawn w ws p n cmd s)) =
     (case spawn w of Throws e \<Rightarrow> s
      | Child cp \<Rightarrow> new_child (RunListeners ws p) (s\<lparr>runningProcesses :=
              AList.update p \<lparr>name = n, path = p, pid = cp, process = spawned s\<rparr> (runningProcesses s)\<rparr>))"
  by (simp add: runProject_spawn_def emit_def Let_def split: spawn_result.split)

lemma runProject_spawn_thrown:
  "snd (snd (runProject_spawn w ws p n cmd s)) = (case spawn w of Throws e \<Rightarrow> Some e | Child cp \<Rightarrow> None)"
  by (simp add: runProject_spawn_def emit_def Let_def split: spawn_result.split)

lemma new_child_keeps:
  "handles_fresh s \<Longrightarrow> handles_fresh (new_child l s)"
  "handles_fresh s \<Longrightarrow> children s k = Some x \<Longrightarrow> children (new_child l s) k = Some x"
  by (auto simp: handles_fresh_def new_child_def)

lemma registry_write_keeps [simp]:
  "handles_fresh (s\<lparr>runningProcesses := r\<rparr>) = handles_fresh s"
  "handles_fresh (s\<lparr>clients := cs\<rparr>) = handles_fresh s"
  "handles_fresh (s\<lparr>crashed := b\<rparr>) = handles_fresh s"
  by (simp_all add: handles_fresh_def)

lemma new_child_registry [simp]:
  "runningProcesses (new_child l s) = runningProcesses s"
  "clients (new_child l s) = clients s"
  "crashed (new_child l s) = crashed s"
  "spawned (new_child l s) = Suc (spawned s)"
  "children (new_child l s) (spawned s) = Some l"
  by (simp_all add: new_child_def)

lemma runProject_keeps:
  assumes "handles_fresh s"
  shows "handles_fresh (fst (snd (runProject w ws p n cmd s)))"
    and "children s k = Some x \<Longrightarrow> children (fst (snd (runProject w ws p n cmd s))) k = Some x"
  using assms
  by (auto simp: runProject_unfold runProject_spawn_state emit_def new_child_keeps
      split: spawn_result.split)

lemma stopProject_keeps:
  assumes "handles_fresh s"
  shows "handles_fresh (fst (snd (stopProject w ws p s)))"
    and "children s k = Some x \<Longrightarrow> children (fst (snd (stopProject w ws p s))) k = Some x"
  using assms
  by (auto simp: stopProject_def emit_def Let_def new_child_keeps
      split: spawn_result.split option.split)

lemma openFolder_keeps:
  assumes "handles_fresh s"
  shows "handles_fresh (fst (snd (openFolder w ws p s)))"
    and "children s k = Some x \<Longrightarrow> children (fst (snd (openFolder w ws p s))) k = Some x"
  using assms
  by (auto simp: openFolder_def emit_def Let_def new_child_keeps
      split: spawn_result.split option.split)

lemma cleanProject_keeps:
  assumes "handles_fresh s"
  shows "handles_fresh (fst (snd (cleanProject w ws p n s)))"
    and "children s k = Some x \<Longrightarrow> children (fst (snd (cleanProject w ws p n s))) k = Some x"
  using assms
  by (auto simp: cleanProject_def emit_def Let_def new_child_keeps
      split: spawn_result.split option.split)

lemma handleCommand_keeps:
  assumes "handles_fresh s"
  shows "handles_fresh (fst (snd (handleCommand w ws d s)))"
    and "children s k = Some x \<Longrightarrow> children (fst (snd (handleCommand w ws d s))) k = Some x"
  using assms
  by (simp_all add: handleCommand_def runProject_keeps stopProject_keeps openFolder_keeps
      cleanProject_keeps)

lemma handleCommand_other_state:
  "fst (snd (handleCommand_other w ws d s)) = s
   \<or> fst (snd (handleCommand_other w ws d s)) = new_child NoListeners s"
  by (simp add: handleCommand_other_def emit_def Let_def split: spawn_result.split)

lemma handleCommand_other_keeps:
  assumes "handles_fresh s"
  shows "handles_fresh (fst (snd (handleCommand_other w ws d s)))"
    and "children s k = Some x \<Longrightarrow> children (fst (snd (handleCommand_other w ws d s))) k = Some x"
  using assms handleCommand_other_state [of w ws d s]
  by (auto simp: new_child_keeps)

lemma on_message_state:
  "snd (on_message w ws fr s) =
     (case fr of
        Unparsable e \<Rightarrow> s
      | Data d \<Rightarrow> fst (snd (handleCommand w ws d s))
      | DataOther d \<Rightarrow> fst (snd (handleCommand_other w ws d s)))"
  by (simp add: on_message_def split: frame.split prod.split option.split)

lemma on_message_keeps:
  assumes "handles_fresh s"
  shows "handles_fresh (snd (on_message w ws fr s))"
    and "children s k = Some x \<Longrightarrow> children (snd (on_message w ws fr s)) k = Some x"
  using assms
  by (simp_all add: on_message_state handleCommand_keeps handleCommand_other_keeps
      split: frame.split)

lemma step_keeps:
  assumes "handles_fresh s"
  shows "handles_fresh (snd (step w i s))"
    and "children s k = Some x \<Longrightarrow> children (snd (step w i s)) k = Some x"
  using assms
  by (auto simp: step_def on_message_keeps run_on_stdout_def run_on_stderr_def
      run_on_error_def run_on_close_def clean_on_close_def Let_def
      split: input.split option.split listeners.split)

lemma run_Cons_state: "snd (run ((w, i) # tr) s) = snd (run tr (snd (step w i s)))"
  by (simp split: prod.split)

lemma run_Cons_effects:
  "fst (run ((w, i) # tr) s) = fst (step w i s) @ fst (run tr (snd (step w i s)))"
  by (simp split: prod.split)

lemma run_keeps:
  "handles_fresh s \<Longrightarrow>
     handles_fresh (snd (run tr s))
     \<and> (children s k = Some x \<longrightarrow> children (snd (run tr s)) k = Some x)"
proof (induction tr arbitrary: s)
  case Nil
  then show ?case by simp
next
  case (Cons a tr)
  obtain w i where a: "a = (w, i)" by (cases a)
  have fresh: "handles_fresh (snd (step w i s))"
    using Cons.prems by (rule step_keeps)
  from Cons.IH [OF fresh] step_keeps(2) [OF Cons.prems]
  show ?case unfolding a run_Cons_state by blast
qed

lemma count_after_update:
  "map_of xs p = None \<Longrightarrow> length (filter (\<lambda>e. fst e = p) (AList.update p v xs)) = Suc 0"
proof (induction xs)
  case Nil
  then show ?case by simp
next
  case (Cons x xs)
  then have "fst x \<noteq> p" and "map_of xs p = None"
    by (cases x; simp split: if_splits)+
  with Cons.IH show ?case by simp
qed

lemma handleCommand_run:
  "handleCommand w ws \<lparr>action = ''run'', projectPath = p, projectName = n, command = k\<rparr> s
     = runProject w ws p n (or_default k ''npm run dev'') s"
  by (simp add: handleCommand_def)

lemma handleCommand_deploy:
  "handleCommand w ws \<lparr>action = ''deploy'', projectPath = p, projectName = n, command = k\<rparr> s
     = runProject w ws p n (or_default k ''npm run deploy'') s"
  by (simp add: handleCommand_def)

lemma handleCommand_install:
  "handleCommand w ws \<lparr>action = ''install'', projectPath = p, projectName = n, command = k\<rparr> s
     = runProject w ws p n ''npm install'' s"
  by (simp add: handleCommand_def)

lemma on_message_returned:
  "snd (snd (handleCommand w ws d s)) = None \<Longrightarrow>
     on_message w ws (Data d) s = (fst (handleCommand w ws d s), fst (snd (handleCommand w ws d s)))"
  by (cases "handleCommand w ws d s") (simp add: on_message_def)

lemma on_message_thrown:
  "snd (snd (handleCommand w ws d s)) = Some e \<Longrightarrow>
     on_message w ws (Data d) s =
       (fst (handleCommand w ws d s) @ [ws_send ws [(''type'', Str ''error''), (''message'', Str e)]],
        fst (snd (handleCommand w ws d s)))"
  by (cases "handleCommand w ws d s") (simp add: on_message_def)

lemma on_message_other_returned:
  "snd (snd (handleCommand_other w ws d s)) = None \<Longrightarrow>
     on_message w ws (DataOther d) s =
       (fst (handleCommand_other w ws d s), fst (snd (handleCommand_other w ws d s)))"
  by (cases "handleCommand_other w ws d s") (simp add: on_message_def)

lemma on_message_other_thrown:
  "snd (snd (handleCommand_other w ws d s)) = Some e \<Longrightarrow>
     on_message w ws (DataOther d) s =
       (fst (handleCommand_other w ws d s)
          @ [ws_send ws [(''type'', Str ''error''), (''message'', Str e)]],
        fst (snd (handleCommand_other w ws d s)))"
  by (cases "handleCommand_other w ws d s") (simp add: on_message_def)

lemma step_message: "\<not> crashed s \<Longrightarrow> step w (Message ws fr) s = on_message w ws fr s"
  by (simp add: step_def)

lemma handleCommand_start:
  assumes "a \<in> {''run'', ''deploy'', ''install''}"
  obtains cmd where
    "handleCommand w ws \<lparr>action = a, projectPath = p, projectName = n, command = k\<rparr> s
       = runProject w ws p n cmd s"
proof -
  from assms consider "a = ''run''" | "a = ''deploy''" | "a = ''install''"
    by blast
  then show thesis
  proof cases
    case 1
    then show thesis using that handleCommand_run by blast
  next
    case 2
    then show thesis using that handleCommand_deploy by blast
  next
    case 3
    then show thesis using that handleCommand_install by blast
  qed
qed

lemma runProject_already:
  "map_of (runningProcesses s) p \<noteq> None \<Longrightarrow>
     runProject w ws p n cmd s =
       ([Send ws [(''type'', Str ''error''), (''projectPath'', Str p),
                  (''message'', Str (n @ '' is already running! Stop it first.''))]], s, None)"
  by (simp add: runProject_unfold ws_send_def stringify_def)

lemma runProject_state:
  "map_of (runningProcesses s) p = None \<Longrightarrow>
     fst (snd (runProject w ws p n cmd s)) =
       (case spawn w of
          Throws e \<Rightarrow> s
        | Child cp \<Rightarrow>
            new_child (RunListeners ws p)
              (s\<lparr>runningProcesses :=
                   AList.update p \<lparr>name = n, path = p, pid = cp, process = spawned s\<rparr>
                     (runningProcesses s)\<rparr>))"
  by (simp add: runProject_unfold emit_def runProject_spawn_state)

lemma runProject_thrown:
  "map_of (runningProcesses s) p = None \<Longrightarrow>
     snd (snd (runProject w ws p n cmd s)) =
       (case spawn w of Throws e \<Rightarrow> Some e | Child cp \<Rightarrow> None)"
  by (simp add: runProject_unfold emit_def runProject_spawn_thrown)

lemma step_run_close:
  "\<not> crashed s \<Longrightarrow> children s k = Some (RunListeners ws p) \<Longrightarrow>
     step w (ChildClose k code) s = run_on_close ws p code s"
  by (simp add: step_def)

lemma step_run_error:
  "\<not> crashed s \<Longrightarrow> children s k = Some (RunListeners ws p) \<Longrightarrow>
     step w (ChildError k err) s = run_on_error ws p err s"
  by (simp add: step_def)

lemma step_clean_close:
  "\<not> crashed s \<Longrightarrow> children s k = Some (CleanListeners ws p n) \<Longrightarrow>
     step w (ChildClose k code) s = clean_on_close ws p n code s"
  by (simp add: step_def)

lemma listed_ids:
  "map (field ''id'') (running_list s) = map (\<lambda>e. Str (fst e)) (runningProcesses s)"
  by (simp add: running_list_def field_def stringify_def case_prod_beta)

lemma not_listed_after_delete:
  "Str p \<notin> set (map (field ''id'')
      (running_list (s\<lparr>runningProcesses := AList.delete p (runningProcesses s)\<rparr>)))"
  using delete_notin_dom [of p "runningProcesses s"] by (auto simp: listed_ids)

lemma addressed_ws_send:
  "(''projectPath'', Str p) \<in> set props \<Longrightarrow> addressed (ws_send ws props)"
  by (force simp: addressed_def ws_send_def carries_def stringify_def)

lemma addressed_ws_send_value:
  "(''projectPath'', v) \<in> set props \<Longrightarrow> v \<noteq> Undefined \<Longrightarrow> addressed (ws_send ws props)"
  by (force simp: addressed_def ws_send_def carries_def stringify_def)

lemma js_of_Undefined: "(js_of x = Undefined) = (x = Absent)"
  by (cases x) simp_all

lemma addressed_broadcast: "e \<in> set (broadcastStatus s) \<Longrightarrow> addressed e"
  by (auto simp: broadcastStatus_def addressed_def stringify_def)

lemma addressed_other [simp]: "addressed (Spawn f args opts)" "addressed (Kill k sig)"
  by (simp_all add: addressed_def)

lemma runProject_spawn_addressed:
  "e \<in> set (fst (runProject_spawn w ws p n cmd s)) \<Longrightarrow> addressed e"
  by (auto simp: runProject_spawn_effects addressed_ws_send addressed_broadcast
      split: spawn_result.splits)

lemma runProject_addressed:
  "e \<in> set (fst (runProject w ws p n cmd s)) \<Longrightarrow> addressed e"
  by (auto simp: runProject_unfold emit_def addressed_ws_send runProject_spawn_addressed
      split: if_splits)

lemma stopProject_addressed:
  "e \<in> set (fst (stopProject w ws p s)) \<Longrightarrow> addressed e"
  by (auto simp: stopProject_def emit_def Let_def addressed_ws_send addressed_broadcast
      split: option.splits spawn_result.splits if_splits)

lemma openFolder_addressed:
  "e \<in> set (fst (openFolder w ws p s)) \<Longrightarrow> addressed e"
  by (auto simp: openFolder_def emit_def addressed_ws_send split: spawn_result.splits)

lemma cleanProject_addressed:
  "e \<in> set (fst (cleanProject w ws p n s)) \<Longrightarrow> addressed e"
  by (auto simp: cleanProject_def emit_def Let_def addressed_ws_send
      split: spawn_result.splits if_splits)

lemma listeners_addressed:
  "e \<in> set (fst (run_on_stdout ws p chunk s)) \<Longrightarrow> addressed e"
  "e \<in> set (fst (run_on_stderr ws p chunk s)) \<Longrightarrow> addressed e"
  "e \<in> set (fst (run_on_error ws p err s)) \<Longrightarrow> addressed e"
  "e \<in> set (fst (run_on_close ws p code s)) \<Longrightarrow> addressed e"
  "e \<in> set (fst (clean_on_close ws p n code s)) \<Longrightarrow> addressed e"
  by (auto simp: run_on_stdout_def run_on_stderr_def run_on_error_def run_on_close_def
      clean_on_close_def Let_def addressed_ws_send addressed_broadcast split: if_splits)

lemma broadcast_no_spawn [simp]: "filter is_spawn (broadcastStatus s) = []"
  by (simp add: broadcastStatus_def is_spawn_def filter_map comp_def)

lemma ws_send_no_spawn [simp]: "\<not> is_spawn (ws_send ws props)" "\<not> is_spawn (Send ws m)"
  by (simp_all add: ws_send_def is_spawn_def)

lemma step_no_spawn:
  assumes "\<not> is_message i"
  shows "filter is_spawn (fst (step w i s)) = []"
proof (cases "crashed s")
  case True
  then show ?thesis by (simp add: step_def)
next
  case False
  show ?thesis
  proof (cases i)
    case (Message ws fr)
    with assms show ?thesis by (simp add: is_message_def)
  qed (use False in \<open>simp_all add: step_def run_on_stdout_def run_on_stderr_def run_on_error_def
      run_on_close_def clean_on_close_def Let_def split: option.split listeners.split\<close>)
qed

lemma run_no_spawn:
  "\<forall>x \<in> set tr. \<not> is_message (snd x) \<Longrightarrow> filter is_spawn (fst (run tr s)) = []"
proof (induction tr arbitrary: s)
  case Nil
  then show ?case by simp
next
  case (Cons a tr)
  obtain w i where a: "a = (w, i)" by (cases a)
  from Cons.prems have "\<not> is_message i" and rest: "\<forall>x \<in> set tr. \<not> is_message (snd x)"
    by (simp_all add: a)
  with Cons.IH [OF rest] show ?case
    unfolding a run_Cons_effects by (simp add: step_no_spawn)
qed

lemma no_entry_no_count: "p \<notin> fst ` set xs \<Longrightarrow> filter (\<lambda>e. fst e = p) xs = []"
  by (induction xs) auto

lemma distinct_count:
  "distinct (map fst xs) \<Longrightarrow> length (filter (\<lambda>e. fst e = p) xs) \<le> 1"
proof (induction xs)
  case Nil
  then show ?case by simp
next
  case (Cons x xs)
  then have IH: "length (filter (\<lambda>e. fst e = p) xs) \<le> 1" and new: "fst x \<notin> fst ` set xs"
    by simp_all
  show ?case
  proof (cases "fst x = p")
    case True
    with new no_entry_no_count [of p xs] show ?thesis by simp
  next
    case False
    with IH show ?thesis by simp
  qed
qed

lemma runProject_registry:
  "runningProcesses (fst (snd (runProject w ws p n cmd s))) =
     (if map_of (runningProcesses s) p \<noteq> None then runningProcesses s
      else case spawn w of
             Throws e \<Rightarrow> runningProcesses s
           | Child cp \<Rightarrow>
               AList.update p \<lparr>name = n, path = p, pid = cp, process = spawned s\<rparr>
                 (runningProcesses s))"
proof (cases "map_of (runningProcesses s) p = None")
  case True
  then show ?thesis
    by (simp add: runProject_state split: spawn_result.split)
next
  case False
  then show ?thesis
    by (simp add: runProject_already)
qed

lemma stopProject_registry:
  "runningProcesses (fst (snd (stopProject w ws p s))) = runningProcesses s
   \<or> runningProcesses (fst (snd (stopProject w ws p s))) = AList.delete p (runningProcesses s)"
  by (simp add: stopProject_def emit_def Let_def split: option.split spawn_result.split)

lemma openFolder_registry:
  "runningProcesses (fst (snd (openFolder w ws p s))) = runningProcesses s"
  by (simp add: openFolder_def emit_def split: spawn_result.split)

lemma cleanProject_registry:
  "runningProcesses (fst (snd (cleanProject w ws p n s))) = runningProcesses s"
  by (simp add: cleanProject_def emit_def Let_def split: spawn_result.split)

text \<open>What one turn of the event loop can do to the registry.\<close>

lemma step_registry:
  "runningProcesses (snd (step w i s)) = runningProcesses s
   \<or> (\<exists>ws d cp.
         i = Message ws (Data d) \<and> action d \<in> {''run'', ''deploy'', ''install''}
         \<and> spawn w = Child cp \<and> map_of (runningProcesses s) (projectPath d) = None
         \<and> runningProcesses (snd (step w i s)) =
             AList.update (projectPath d)
               \<lparr>name = projectName d, path = projectPath d, pid = cp, process = spawned s\<rparr>
               (runningProcesses s))
   \<or> (\<exists>p. runningProcesses (snd (step w i s)) = AList.delete p (runningProcesses s)
         \<and> ((\<exists>ws d. i = Message ws (Data d) \<and> action d = ''stop'' \<and> projectPath d = p)
              \<or> (\<exists>k ws code. i = ChildClose k code \<and> children s k = Some (RunListeners ws p))
              \<or> (\<exists>k ws err. i = ChildError k err \<and> children s k = Some (RunListeners ws p))))"
proof (cases "crashed s")
  case True
  then show ?thesis by (simp add: step_def)
next
  case False
  show ?thesis
  proof (cases i)
    case (Connection c)
    with False show ?thesis by (simp add: step_def)
  next
    case (Disconnect c)
    with False show ?thesis by (simp add: step_def)
  next
    case (ChildStdout k chunk)
    with False show ?thesis
      by (simp add: step_def run_on_stdout_def split: option.split listeners.split)
  next
    case (ChildStderr k chunk)
    with False show ?thesis
      by (simp add: step_def run_on_stderr_def split: option.split listeners.split)
  next
    case (ChildError k err)
    show ?thesis
    proof (cases "children s k")
      case None
      with False ChildError show ?thesis by (simp add: step_def)
    next
      case (Some l)
      show ?thesis
      proof (cases l)
        case (RunListeners ws p)
        with Some False ChildError
        have "runningProcesses (snd (step w i s)) = AList.delete p (runningProcesses s)"
          by (simp add: step_def run_on_error_def Let_def)
        with Some RunListeners ChildError show ?thesis by blast
      qed (use Some False ChildError in \<open>simp_all add: step_def\<close>)
    qed
  next
    case (ChildClose k code)
    show ?thesis
    proof (cases "children s k")
      case None
      with False ChildClose show ?thesis by (simp add: step_def)
    next
      case (Some l)
      show ?thesis
      proof (cases l)
        case (RunListeners ws p)
        with Some False ChildClose
        have "runningProcesses (snd (step w i s)) = AList.delete p (runningProcesses s)"
          by (simp add: step_def run_on_close_def Let_def)
        with Some RunListeners ChildClose show ?thesis by blast
      next
        case (CleanListeners ws p n)
        with Some False ChildClose show ?thesis
          by (simp add: step_def clean_on_close_def)
      next
        case NoListeners
        with Some False ChildClose show ?thesis by (simp add: step_def)
      qed
    qed
  next
    case (Message ws fr)
    show ?thesis
    proof (cases fr)
      case (Unparsable e)
      with False Message show ?thesis by (simp add: step_message on_message_state)
    next
      case (DataOther d)
      from handleCommand_other_state [of w ws d s]
      have "runningProcesses (fst (snd (handleCommand_other w ws d s))) = runningProcesses s"
        by auto
      with False Message DataOther show ?thesis by (simp add: step_message on_message_state)
    next
      case (Data d)
      with False Message
      have st: "snd (step w i s) = fst (snd (handleCommand w ws d s))"
        by (simp add: step_message on_message_state)
      consider (start) "action d \<in> {''run'', ''deploy'', ''install''}"
        | (stop) "action d = ''stop''"
        | (other) "action d \<notin> {''run'', ''deploy'', ''install''}" "action d \<noteq> ''stop''"
        by blast
      then show ?thesis
      proof cases
        case start
        then obtain cmd where h: "handleCommand w ws d s =
            runProject w ws (projectPath d) (projectName d) cmd s"
          by (auto simp: handleCommand_def)
        show ?thesis
        proof (cases "map_of (runningProcesses s) (projectPath d) = None")
          case True
          show ?thesis
          proof (cases "spawn w")
            case (Throws e)
            with True show ?thesis by (simp add: st h runProject_registry)
          next
            case (Child cp)
            with True have "runningProcesses (snd (step w i s)) =
                AList.update (projectPath d)
                  \<lparr>name = projectName d, path = projectPath d, pid = cp, process = spawned s\<rparr>
                  (runningProcesses s)"
              by (simp add: st h runProject_registry)
            with Message Data start Child True show ?thesis by blast
          qed
        next
          case False
          then show ?thesis by (simp add: st h runProject_registry)
        qed
      next
        case stop
        then have h: "handleCommand w ws d s = stopProject w ws (projectPath d) s"
          by (simp add: handleCommand_def)
        from stopProject_registry [of w ws "projectPath d" s] Message Data stop
        show ?thesis unfolding st h by blast
      next
        case other
        then have "runningProcesses (fst (snd (handleCommand w ws d s))) = runningProcesses s"
          by (simp add: handleCommand_def openFolder_registry cleanProject_registry)
        then show ?thesis by (simp add: st)
      qed
    qed
  qed
qed

lemma step_distinct:
  assumes "distinct (map fst (runningProcesses s))"
  shows "distinct (map fst (runningProcesses (snd (step w i s))))"
  using step_registry [of w i s] assms
  by (auto simp: distinct_update distinct_delete)

lemma run_distinct:
  "distinct (map fst (runningProcesses s)) \<Longrightarrow>
     distinct (map fst (runningProcesses (snd (run tr s))))"
proof (induction tr arbitrary: s)
  case Nil
  then show ?case by simp
next
  case (Cons a tr)
  obtain w i where a: "a = (w, i)" by (cases a)
  from Cons.prems have "distinct (map fst (runningProcesses (snd (step w i s))))"
    by (rule step_distinct)
  from Cons.IH [OF this] show ?case
    unfolding a run_Cons_state .
qed

lemma count_update_other:
  "k \<noteq> p \<Longrightarrow>
     length (filter (\<lambda>e. fst e = p) (AList.update k v xs)) = length (filter (\<lambda>e. fst e = p) xs)"
  by (induction xs) simp_all

lemma count_delete_other:
  "q \<noteq> p \<Longrightarrow>
     length (filter (\<lambda>e. fst e = p) (AList.delete q xs)) = length (filter (\<lambda>e. fst e = p) xs)"
  by (induction xs) simp_all

text \<open>An event that does not end the process of a path leaves the entry of the path alone.\<close>

lemma step_undisturbed:
  assumes "\<not> ends p s i" and "map_of (runningProcesses s) p = Some x"
  shows "map_of (runningProcesses (snd (step w i s))) p = Some x
       \<and> entries_for p (snd (step w i s)) = entries_for p s"
proof -
  from step_registry [of w i s]
  consider (same) "runningProcesses (snd (step w i s)) = runningProcesses s"
    | (upd) k v where "map_of (runningProcesses s) k = None"
        "runningProcesses (snd (step w i s)) = AList.update k v (runningProcesses s)"
    | (del) q where "runningProcesses (snd (step w i s)) = AList.delete q (runningProcesses s)"
        "(\<exists>ws d. i = Message ws (Data d) \<and> action d = ''stop'' \<and> projectPath d = q)
         \<or> (\<exists>k ws code. i = ChildClose k code \<and> children s k = Some (RunListeners ws q))
         \<or> (\<exists>k ws err. i = ChildError k err \<and> children s k = Some (RunListeners ws q))"
    by blast
  then show ?thesis
  proof cases
    case same
    with assms(2) show ?thesis by (simp add: entries_for_def)
  next
    case upd
    with assms(2) have "k \<noteq> p" by auto
    with upd(2) assms(2) show ?thesis
      by (simp add: entries_for_def update_conv' count_update_other)
  next
    case del
    from del(2) assms(1) have "q \<noteq> p"
      by (auto simp: ends_def)
    with del(1) assms(2) show ?thesis
      by (simp add: entries_for_def delete_conv' count_delete_other)
  qed
qed

lemma run_undisturbed:
  "undisturbed p tr s \<Longrightarrow> map_of (runningProcesses s) p = Some x \<Longrightarrow>
     map_of (runningProcesses (snd (run tr s))) p = Some x
     \<and> entries_for p (snd (run tr s)) = entries_for p s"
proof (induction tr arbitrary: s)
  case Nil
  then show ?case by simp
next
  case (Cons a tr)
  obtain w i where a: "a = (w, i)" by (cases a)
  from Cons.prems(1) have quiet: "\<not> ends p s i" and rest: "undisturbed p tr (snd (step w i s))"
    by (simp_all add: a)
  from step_undisturbed [OF quiet Cons.prems(2), of w]
  have one: "map_of (runningProcesses (snd (step w i s))) p = Some x"
    and count: "entries_for p (snd (step w i s)) = entries_for p s"
    by simp_all
  from Cons.IH [OF rest one] count show ?case
    unfolding a run_Cons_state by simp
qed

section \<open>The claims\<close>

text \<open>
  C1. In every state the server reaches from its initial state, by any sequence of
  connections, frames and process events in any world, the registry holds at most one
  entry for each path. A turn of the event loop gives a path an entry only when it handles a
  \<open>run\<close>, \<open>deploy\<close> or \<open>install\<close> command for that path in which \<open>spawn\<close> returned a child
  handle; it takes the entry of a path away only when it handles a \<open>stop\<close> command for the
  path, or the \<open>close\<close> event (process exit) or the \<open>error\<close> event (spawn error) of a child that
  \<open>runProject\<close> spawned for the path.
\<close>

theorem registry_invariant:
  "entries_for p (snd (run tr init)) \<le> 1
   \<and> (map_of (runningProcesses s) p = None
        \<and> map_of (runningProcesses (snd (step w i s))) p \<noteq> None \<longrightarrow>
        (\<exists>ws d cp. i = Message ws (Data d) \<and> action d \<in> {''run'', ''deploy'', ''install''}
                    \<and> projectPath d = p \<and> spawn w = Child cp))
   \<and> (map_of (runningProcesses s) p \<noteq> None
        \<and> map_of (runningProcesses (snd (step w i s))) p = None \<longrightarrow>
        (\<exists>ws d. i = Message ws (Data d) \<and> action d = ''stop'' \<and> projectPath d = p)
        \<or> (\<exists>k ws code. i = ChildClose k code \<and> children s k = Some (RunListeners ws p))
        \<or> (\<exists>k ws err. i = ChildError k err \<and> children s k = Some (RunListeners ws p)))"
proof -
  have "distinct (map fst (runningProcesses init))"
    by (simp add: init_def)
  then have "distinct (map fst (runningProcesses (snd (run tr init))))"
    by (rule run_distinct)
  then have one: "entries_for p (snd (run tr init)) \<le> 1"
    unfolding entries_for_def by (rule distinct_count)
  have created: "\<exists>ws d cp. i = Message ws (Data d) \<and> action d \<in> {''run'', ''deploy'', ''install''}
                    \<and> projectPath d = p \<and> spawn w = Child cp"
    if "map_of (runningProcesses s) p = None"
      and "map_of (runningProcesses (snd (step w i s))) p \<noteq> None"
    using step_registry [of w i s] that
    by (elim disjE exE conjE) (auto simp: update_conv' delete_conv' split: if_splits)
  have removed: "(\<exists>ws d. i = Message ws (Data d) \<and> action d = ''stop'' \<and> projectPath d = p)
        \<or> (\<exists>k ws code. i = ChildClose k code \<and> children s k = Some (RunListeners ws p))
        \<or> (\<exists>k ws err. i = ChildError k err \<and> children s k = Some (RunListeners ws p))"
    if "map_of (runningProcesses s) p \<noteq> None"
      and "map_of (runningProcesses (snd (step w i s))) p = None"
  proof -
    from step_registry [of w i s]
    consider (same) "runningProcesses (snd (step w i s)) = runningProcesses s"
      | (upd) k v where "runningProcesses (snd (step w i s)) = AList.update k v (runningProcesses s)"
      | (del) q where "runningProcesses (snd (step w i s)) = AList.delete q (runningProcesses s)"
        "(\<exists>ws d. i = Message ws (Data d) \<and> action d = ''stop'' \<and> projectPath d = q)
              \<or> (\<exists>k ws code. i = ChildClose k code \<and> children s k = Some (RunListeners ws q))
              \<or> (\<exists>k ws err. i = ChildError k err \<and> children s k = Some (RunListeners ws q))"
      by blast
    then show ?thesis
    proof cases
      case same
      with that show ?thesis by simp
    next
      case upd
      with that show ?thesis by (simp add: update_conv' split: if_splits)
    next
      case del
      from that del(1) have "q = p"
        by (cases "q = p") (simp_all add: delete_conv')
      with del(2) show ?thesis by simp
    qed
  qed
  from one created removed show ?thesis by blast
qed

theorem registry_invariant_witness:
  "entries_for ''/p''
     (snd (run [(posix True (Child (Some 4242)), Connection 7),
                (posix True (Child (Some 4242)), Message 7 (Data (cmd_msg ''run'' None))),
                (posix True (Child (Some 4243)), Message 7 (Data (cmd_msg ''run'' None)))]
            init)) \<le> 1
   \<and> map_of (runningProcesses one_client) ''/p'' = None
   \<and> map_of (runningProcesses
         (snd (step (posix True (Child (Some 4242))) (Message 7 (Data (cmd_msg ''run'' None)))
                 one_client))) ''/p'' \<noteq> None
   \<and> (\<exists>ws d cp. Message 7 (Data (cmd_msg ''run'' None)) = Message ws (Data d)
          \<and> action d \<in> {''run'', ''deploy'', ''install''} \<and> projectPath d = ''/p''
          \<and> spawn (posix True (Child (Some 4242))) = Child cp)
   \<and> map_of (runningProcesses
         (snd (step (posix True (Child None)) (ChildClose 0 (Some 0))
           (snd (step (posix True (Child (Some 4242))) (Message 7 (Data (cmd_msg ''run'' None)))
                   one_client))))) ''/p'' = None
   \<and> ((\<exists>ws d. ChildClose 0 (Some 0) = Message ws (Data d) \<and> action d = ''stop''
                 \<and> projectPath d = ''/p'')
        \<or> (\<exists>k ws code. ChildClose 0 (Some 0) = ChildClose k code
               \<and> children (snd (step (posix True (Child (Some 4242)))
                      (Message 7 (Data (cmd_msg ''run'' None))) one_client)) k
                   = Some (RunListeners ws ''/p''))
        \<or> (\<exists>k ws err. ChildClose 0 (Some 0) = ChildError k err
               \<and> children (snd (step (posix True (Child (Some 4242)))
                      (Message 7 (Data (cmd_msg ''run'' None))) one_client)) k
                   = Some (RunListeners ws ''/p'')))"
proof -
  let ?w = "posix True (Child (Some 4242))"
  let ?m = "Message 7 (Data (cmd_msg ''run'' None))"
  let ?s1 = "snd (step ?w ?m one_client)"
  let ?c = "ChildClose 0 (Some 0)"
  have a: "\<not> crashed one_client" and b: "map_of (runningProcesses one_client) ''/p'' = None"
    and sp: "spawned one_client = 0"
    by (simp_all add: one_client_def init_def)
  have w: "spawn ?w = Child (Some 4242)"
    by (simp add: posix_def)
  have s1: "?s1 = new_child (RunListeners 7 ''/p'')
      (one_client\<lparr>runningProcesses := AList.update ''/p''
          \<lparr>name = ''P'', path = ''/p'', pid = Some 4242, process = spawned one_client\<rparr>
          (runningProcesses one_client)\<rparr>)"
    using a b w
    by (simp add: cmd_msg_def step_message on_message_state handleCommand_run runProject_state)
  have live: "map_of (runningProcesses ?s1) ''/p'' \<noteq> None"
    by (simp add: s1 update_conv')
  have ch: "children ?s1 0 = Some (RunListeners 7 ''/p'')" and alive: "\<not> crashed ?s1"
    using a by (simp_all add: s1 sp new_child_def)
  have gone: "map_of (runningProcesses (snd (step (posix True (Child None)) ?c ?s1))) ''/p'' = None"
    unfolding step_run_close [OF alive ch]
    by (simp add: run_on_close_def Let_def delete_conv')
  from registry_invariant [where p = "''/p''" and s = one_client and w = ?w and i = ?m
      and tr = "[(?w, Connection 7), (?w, ?m), (posix True (Child (Some 4243)), ?m)]"]
    registry_invariant [where p = "''/p''" and s = ?s1 and w = "posix True (Child None)"
      and i = ?c and tr = "[]"]
    b live gone
  show ?thesis by blast
qed

text \<open>
  C2. \<open>runProject\<close> is called for a path that has no entry (so the first guard is passed)
  and no \<open>node_modules\<close>, with a command that does not contain \<open>install\<close> (the code's test
  for an install command). It then sends a \<open>warning\<close> event and does what the recursive call
  \<open>runProject\<close> with \<open>npm install\<close> does: the \<open>start\<close> event and the only \<open>spawn\<close> are for
  \<open>npm install\<close>, which is not the requested command. When \<open>spawn\<close> returns a child, the path
  gets its one live entry, whose process is that child, the child gets the listeners of
  \<open>runProject\<close>, and the entry stays for as long as the path is not stopped and the child
  neither exits nor reports an error. The requested command is kept nowhere: the state after
  the call is the state before it plus that entry and that child. As long as no new frame
  arrives from a client, whatever the child processes do, the server spawns nothing; and when
  the install process ends, its close listener runs, the entry of the path is removed and
  nothing is spawned: the path is idle again without the requested command ever having been
  run.
\<close>

theorem install_first:
  assumes "map_of (runningProcesses s) p = None"
    and "\<not> existsSync w (path_join w p ''node_modules'')"
    and "\<not> str_includes cmd ''install''"
    and "\<not> crashed s" and "handles_fresh s"
    and "r = runProject w ws p n cmd s"
    and "\<forall>x \<in> set tr. \<not> is_message (snd x)"
    and "s2 = snd (run tr (fst (snd r)))"
  shows "r = emit [Send ws [(''type'', Str ''warning''), (''projectPath'', Str p),
                            (''message'',
                             Str ''node_modules not found. Installing dependencies first...'')]]
                  (runProject w ws p n ''npm install'' s)
       \<and> take 3 (fst r) =
           [Send ws [(''type'', Str ''warning''), (''projectPath'', Str p),
                     (''message'',
                      Str ''node_modules not found. Installing dependencies first...'')],
            Send ws [(''type'', Str ''start''), (''projectPath'', Str p),
                     (''projectName'', Str n), (''command'', Str ''npm install''),
                     (''message'', Str (''Starting '' @ n @ ''...''))],
            Spawn (if platform w = ''win32'' then ''cmd.exe'' else ''/bin/sh'')
                  [Str (if platform w = ''win32'' then ''/c'' else ''-c''), Str ''npm install'']
                  [Cwd p, Env_FORCE_COLOR]]
       \<and> filter is_spawn (fst r) =
           [Spawn (if platform w = ''win32'' then ''cmd.exe'' else ''/bin/sh'')
                  [Str (if platform w = ''win32'' then ''/c'' else ''-c''), Str ''npm install'']
                  [Cwd p, Env_FORCE_COLOR]]
       \<and> cmd \<noteq> ''npm install''
       \<and> filter is_spawn (fst (run tr (fst (snd r)))) = []
       \<and> (spawn w = Child cp \<and> \<not> crashed s2 \<longrightarrow>
            map_of (runningProcesses (snd (step w' (ChildClose (spawned s) code) s2))) p = None
            \<and> filter is_spawn (fst (step w' (ChildClose (spawned s) code) s2)) = [])
       \<and> fst (snd r) =
           (case spawn w of
              Throws e \<Rightarrow> s
            | Child c \<Rightarrow>
                new_child (RunListeners ws p)
                  (s\<lparr>runningProcesses :=
                       AList.update p \<lparr>name = n, path = p, pid = c, process = spawned s\<rparr>
                         (runningProcesses s)\<rparr>))
       \<and> (spawn w = Child cp \<longrightarrow>
            fst r =
              [Send ws [(''type'', Str ''warning''), (''projectPath'', Str p),
                        (''message'',
                         Str ''node_modules not found. Installing dependencies first...'')],
               Send ws [(''type'', Str ''start''), (''projectPath'', Str p),
                        (''projectName'', Str n), (''command'', Str ''npm install''),
                        (''message'', Str (''Starting '' @ n @ ''...''))],
               Spawn (if platform w = ''win32'' then ''cmd.exe'' else ''/bin/sh'')
                     [Str (if platform w = ''win32'' then ''/c'' else ''-c''), Str ''npm install'']
                     [Cwd p, Env_FORCE_COLOR]]
              @ broadcastStatus (fst (snd r))
            \<and> map_of (runningProcesses (fst (snd r))) p
                = Some \<lparr>name = n, path = p, pid = cp, process = spawned s\<rparr>
            \<and> entries_for p (fst (snd r)) = 1
            \<and> Str p \<in> set (map (field ''id'') (running_list (fst (snd r))))
            \<and> children (fst (snd r)) (spawned s) = Some (RunListeners ws p)
            \<and> (undisturbed p tr (fst (snd r)) \<longrightarrow>
                 map_of (runningProcesses s2) p
                   = Some \<lparr>name = n, path = p, pid = cp, process = spawned s\<rparr>)
            \<and> (\<not> crashed s2 \<longrightarrow>
                 step w' (ChildClose (spawned s) code) s2 = run_on_close ws p code s2))"
proof -
  have inst: "str_includes ''npm install'' ''install''"
    by simp
  have inner: "runProject w ws p n ''npm install'' s = runProject_spawn w ws p n ''npm install'' s"
    using assms(1) inst by (simp only: runProject_unfold) simp
  have r: "r = emit [Send ws [(''type'', Str ''warning''), (''projectPath'', Str p),
                            (''message'',
                             Str ''node_modules not found. Installing dependencies first...'')]]
                  (runProject_spawn w ws p n ''npm install'' s)"
    unfolding assms(6) using assms(1,2,3)
    by (simp add: runProject_unfold ws_send_def stringify_def)
  have effects: "fst r =
           [Send ws [(''type'', Str ''warning''), (''projectPath'', Str p),
                     (''message'',
                      Str ''node_modules not found. Installing dependencies first...'')],
            Send ws [(''type'', Str ''start''), (''projectPath'', Str p),
                     (''projectName'', Str n), (''command'', Str ''npm install''),
                     (''message'', Str (''Starting '' @ n @ ''...''))],
            Spawn (if platform w = ''win32'' then ''cmd.exe'' else ''/bin/sh'')
                  [Str (if platform w = ''win32'' then ''/c'' else ''-c''), Str ''npm install'']
                  [Cwd p, Env_FORCE_COLOR]]
           @ (case spawn w of Throws e \<Rightarrow> []
              | Child c \<Rightarrow> broadcastStatus (s\<lparr>runningProcesses :=
                  AList.update p \<lparr>name = n, path = p, pid = c, process = spawned s\<rparr>
                    (runningProcesses s)\<rparr>))"
    unfolding r by (simp add: emit_def runProject_spawn_effects ws_send_def stringify_def)
  have first3: "take 3 (fst r) =
           [Send ws [(''type'', Str ''warning''), (''projectPath'', Str p),
                     (''message'',
                      Str ''node_modules not found. Installing dependencies first...'')],
            Send ws [(''type'', Str ''start''), (''projectPath'', Str p),
                     (''projectName'', Str n), (''command'', Str ''npm install''),
                     (''message'', Str (''Starting '' @ n @ ''...''))],
            Spawn (if platform w = ''win32'' then ''cmd.exe'' else ''/bin/sh'')
                  [Str (if platform w = ''win32'' then ''/c'' else ''-c''), Str ''npm install'']
                  [Cwd p, Env_FORCE_COLOR]]"
    unfolding effects by simp
  have spawns: "filter is_spawn (fst r) =
           [Spawn (if platform w = ''win32'' then ''cmd.exe'' else ''/bin/sh'')
                  [Str (if platform w = ''win32'' then ''/c'' else ''-c''), Str ''npm install'']
                  [Cwd p, Env_FORCE_COLOR]]"
    unfolding effects by (simp add: is_spawn_def split: spawn_result.split)
  have other: "cmd \<noteq> ''npm install''"
    using assms(3) inst by blast
  have quiet: "filter is_spawn (fst (run tr (fst (snd r)))) = []"
    using assms(7) by (rule run_no_spawn)
  have idle: "map_of (runningProcesses (snd (step w' (ChildClose (spawned s) code) s2))) p = None
            \<and> filter is_spawn (fst (step w' (ChildClose (spawned s) code) s2)) = []"
    if "spawn w = Child cp" "\<not> crashed s2"
  proof -
    have st: "fst (snd r) = new_child (RunListeners ws p)
        (s\<lparr>runningProcesses := AList.update p
            \<lparr>name = n, path = p, pid = cp, process = spawned s\<rparr> (runningProcesses s)\<rparr>)"
      unfolding assms(6) using assms(1) that(1) by (simp add: runProject_state)
    have fresh: "handles_fresh (fst (snd r))"
      unfolding st using assms(5) by (simp add: new_child_keeps)
    have "children (fst (snd r)) (spawned s) = Some (RunListeners ws p)"
      by (simp add: st new_child_def)
    with run_keeps [OF fresh, of tr]
    have "children s2 (spawned s) = Some (RunListeners ws p)"
      unfolding assms(8) by blast
    from step_run_close [OF that(2) this] show ?thesis
      by (simp add: run_on_close_def Let_def delete_conv')
  qed
  have state: "fst (snd r) =
           (case spawn w of
              Throws e \<Rightarrow> s
            | Child c \<Rightarrow>
                new_child (RunListeners ws p)
                  (s\<lparr>runningProcesses :=
                       AList.update p \<lparr>name = n, path = p, pid = c, process = spawned s\<rparr>
                         (runningProcesses s)\<rparr>))"
    unfolding assms(6) using assms(1) by (rule runProject_state)
  have running: "fst r =
              [Send ws [(''type'', Str ''warning''), (''projectPath'', Str p),
                        (''message'',
                         Str ''node_modules not found. Installing dependencies first...'')],
               Send ws [(''type'', Str ''start''), (''projectPath'', Str p),
                        (''projectName'', Str n), (''command'', Str ''npm install''),
                        (''message'', Str (''Starting '' @ n @ ''...''))],
               Spawn (if platform w = ''win32'' then ''cmd.exe'' else ''/bin/sh'')
                     [Str (if platform w = ''win32'' then ''/c'' else ''-c''), Str ''npm install'']
                     [Cwd p, Env_FORCE_COLOR]]
              @ broadcastStatus (fst (snd r))
            \<and> map_of (runningProcesses (fst (snd r))) p
                = Some \<lparr>name = n, path = p, pid = cp, process = spawned s\<rparr>
            \<and> entries_for p (fst (snd r)) = 1
            \<and> Str p \<in> set (map (field ''id'') (running_list (fst (snd r))))
            \<and> children (fst (snd r)) (spawned s) = Some (RunListeners ws p)
            \<and> (undisturbed p tr (fst (snd r)) \<longrightarrow>
                 map_of (runningProcesses s2) p
                   = Some \<lparr>name = n, path = p, pid = cp, process = spawned s\<rparr>)
            \<and> (\<not> crashed s2 \<longrightarrow>
                 step w' (ChildClose (spawned s) code) s2 = run_on_close ws p code s2)"
    if sp: "spawn w = Child cp"
  proof -
    let ?s1 = "s\<lparr>runningProcesses :=
        AList.update p \<lparr>name = n, path = p, pid = cp, process = spawned s\<rparr>
          (runningProcesses s)\<rparr>"
    have st: "fst (snd r) = new_child (RunListeners ws p) ?s1"
      using state sp by simp
    have same: "broadcastStatus (fst (snd r)) = broadcastStatus ?s1"
      by (simp add: st broadcastStatus_def running_list_def)
    have out: "fst r =
              [Send ws [(''type'', Str ''warning''), (''projectPath'', Str p),
                        (''message'',
                         Str ''node_modules not found. Installing dependencies first...'')],
               Send ws [(''type'', Str ''start''), (''projectPath'', Str p),
                        (''projectName'', Str n), (''command'', Str ''npm install''),
                        (''message'', Str (''Starting '' @ n @ ''...''))],
               Spawn (if platform w = ''win32'' then ''cmd.exe'' else ''/bin/sh'')
                     [Str (if platform w = ''win32'' then ''/c'' else ''-c''), Str ''npm install'']
                     [Cwd p, Env_FORCE_COLOR]]
              @ broadcastStatus (fst (snd r))"
      unfolding same effects using sp by simp
    have entry: "map_of (runningProcesses (fst (snd r))) p
                = Some \<lparr>name = n, path = p, pid = cp, process = spawned s\<rparr>"
      by (simp add: st update_conv')
    have count: "entries_for p (fst (snd r)) = 1"
      using assms(1) by (simp add: st entries_for_def count_after_update)
    have "p \<in> fst ` set (runningProcesses (fst (snd r)))"
      by (simp add: st dom_update)
    then have listed: "Str p \<in> set (map (field ''id'') (running_list (fst (snd r))))"
      by (auto simp: listed_ids)
    have ch: "children (fst (snd r)) (spawned s) = Some (RunListeners ws p)"
      by (simp add: st new_child_def)
    have stays: "map_of (runningProcesses s2) p
                   = Some \<lparr>name = n, path = p, pid = cp, process = spawned s\<rparr>"
      if "undisturbed p tr (fst (snd r))"
      using run_undisturbed [OF that entry] unfolding assms(8) by simp
    have fresh: "handles_fresh (fst (snd r))"
      unfolding st using assms(5) by (simp add: new_child_keeps)
    from run_keeps [OF fresh, of tr] ch
    have "children s2 (spawned s) = Some (RunListeners ws p)"
      unfolding assms(8) by blast
    then have closes: "step w' (ChildClose (spawned s) code) s2 = run_on_close ws p code s2"
      if "\<not> crashed s2"
      using that by (simp add: step_run_close)
    from out entry count listed ch stays closes show ?thesis by blast
  qed
  from r inner first3 spawns other quiet idle state running show ?thesis
    by simp
qed

theorem install_first_witness:
  "map_of (runningProcesses one_client) ''/p'' = None
   \<and> \<not> existsSync (posix False (Child (Some 4242))) ''/p/node_modules''
   \<and> \<not> str_includes ''echo hi'' ''install''
   \<and> fst (runProject (posix False (Child (Some 4242))) 7 ''/p'' ''P'' ''echo hi'' one_client) =
       [Send 7 [(''type'', Str ''warning''), (''projectPath'', Str ''/p''),
                (''message'', Str ''node_modules not found. Installing dependencies first...'')],
        Send 7 [(''type'', Str ''start''), (''projectPath'', Str ''/p''),
                (''projectName'', Str ''P''), (''command'', Str ''npm install''),
                (''message'', Str ''Starting P...'')],
        Spawn ''/bin/sh'' [Str ''-c'', Str ''npm install''] [Cwd ''/p'', Env_FORCE_COLOR],
        Send 7 [(''type'', Str ''status''),
                (''running'', Arr [Obj [(''id'', Str ''/p''), (''name'', Str ''P''),
                                        (''path'', Str ''/p''), (''pid'', Num 4242)]])]]
   \<and> map_of (runningProcesses
        (fst (snd (runProject (posix False (Child (Some 4242))) 7 ''/p'' ''P'' ''echo hi''
                    one_client)))) ''/p''
       = Some \<lparr>name = ''P'', path = ''/p'', pid = Some 4242, process = 0\<rparr>
   \<and> map_of (runningProcesses
        (snd (step (posix True (Child None)) (ChildClose 0 (Some 0))
          (fst (snd (runProject (posix False (Child (Some 4242))) 7 ''/p'' ''P'' ''echo hi''
                      one_client)))))) ''/p'' = None"
proof -
  let ?w = "posix False (Child (Some 4242))"
  let ?r = "runProject ?w 7 ''/p'' ''P'' ''echo hi'' one_client"
  have a: "map_of (runningProcesses one_client) ''/p'' = None"
    and d: "\<not> crashed one_client" and e: "handles_fresh one_client"
    and sp: "spawned one_client = 0" and rp: "runningProcesses one_client = []"
    and cl: "clients one_client = [7]"
    by (simp_all add: one_client_def init_def handles_fresh_def)
  have nm: "path_join ?w ''/p'' ''node_modules'' = ''/p/node_modules''"
    and w: "spawn ?w = Child (Some 4242)" "platform ?w \<noteq> ''win32''"
    by (simp_all add: posix_def)
  have b: "\<not> existsSync ?w (path_join ?w ''/p'' ''node_modules'')"
    by (simp add: posix_def)
  have c: "\<not> str_includes ''echo hi'' ''install''"
    by simp
  have f: "\<forall>x \<in> set []. \<not> is_message (snd x)"
    by simp
  have st: "fst (snd ?r) = new_child (RunListeners 7 ''/p'')
        (one_client\<lparr>runningProcesses := AList.update ''/p''
            \<lparr>name = ''P'', path = ''/p'', pid = Some 4242, process = spawned one_client\<rparr>
            (runningProcesses one_client)\<rparr>)"
    using a w(1) by (simp add: runProject_state)
  have alive: "\<not> crashed (fst (snd ?r))"
    using d by (simp add: st)
  have s2: "fst (snd ?r) = snd (run [] (fst (snd ?r)))"
    by simp
  note used0 = install_first [where ws = 7 and n = "''P''" and tr = "[]" and cp = "Some 4242"
      and w' = "posix True (Child None)" and code = "Some 0", OF a b c d e refl f s2]
  from used0 have used: "?r = emit [Send 7 [(''type'', Str ''warning''), (''projectPath'', Str ''/p''),
                            (''message'',
                             Str ''node_modules not found. Installing dependencies first...'')]]
                  (runProject ?w 7 ''/p'' ''P'' ''npm install'' one_client)"
    by blast
  from used0 w(1) alive have "map_of (runningProcesses
        (snd (step (posix True (Child None)) (ChildClose (spawned one_client) (Some 0))
           (fst (snd ?r))))) ''/p'' = None"
    by blast
  then have idle: "map_of (runningProcesses
        (snd (step (posix True (Child None)) (ChildClose 0 (Some 0)) (fst (snd ?r))))) ''/p'' = None"
    unfolding sp .
  from used0 w(1) have "map_of (runningProcesses (fst (snd ?r))) ''/p''
       = Some \<lparr>name = ''P'', path = ''/p'', pid = Some 4242, process = spawned one_client\<rparr>"
    by blast
  then have entry: "map_of (runningProcesses (fst (snd ?r))) ''/p''
       = Some \<lparr>name = ''P'', path = ''/p'', pid = Some 4242, process = 0\<rparr>"
    unfolding sp .
  have bc: "broadcastStatus (one_client\<lparr>runningProcesses :=
        [(''/p'', \<lparr>name = ''P'', path = ''/p'', pid = Some 4242, process = 0\<rparr>)]\<rparr>) =
      [Send 7 [(''type'', Str ''status''),
               (''running'', Arr [Obj [(''id'', Str ''/p''), (''name'', Str ''P''),
                                       (''path'', Str ''/p''), (''pid'', Num 4242)]])]]"
    by (simp add: broadcastStatus_def running_list_def stringify_def pid_val_def cl)
  have inner: "fst (runProject ?w 7 ''/p'' ''P'' ''npm install'' one_client) =
       [Send 7 [(''type'', Str ''start''), (''projectPath'', Str ''/p''),
                (''projectName'', Str ''P''), (''command'', Str ''npm install''),
                (''message'', Str ''Starting P...'')],
        Spawn ''/bin/sh'' [Str ''-c'', Str ''npm install''] [Cwd ''/p'', Env_FORCE_COLOR],
        Send 7 [(''type'', Str ''status''),
                (''running'', Arr [Obj [(''id'', Str ''/p''), (''name'', Str ''P''),
                                        (''path'', Str ''/p''), (''pid'', Num 4242)]])]]"
    using a w
    by (simp add: runProject_unfold runProject_spawn_effects rp sp bc ws_send_def stringify_def)
  have "fst ?r =
       [Send 7 [(''type'', Str ''warning''), (''projectPath'', Str ''/p''),
                (''message'', Str ''node_modules not found. Installing dependencies first...'')],
        Send 7 [(''type'', Str ''start''), (''projectPath'', Str ''/p''),
                (''projectName'', Str ''P''), (''command'', Str ''npm install''),
                (''message'', Str ''Starting P...'')],
        Spawn ''/bin/sh'' [Str ''-c'', Str ''npm install''] [Cwd ''/p'', Env_FORCE_COLOR],
        Send 7 [(''type'', Str ''status''),
                (''running'', Arr [Obj [(''id'', Str ''/p''), (''name'', Str ''P''),
                                        (''path'', Str ''/p''), (''pid'', Num 4242)]])]]"
    by (subst used) (simp add: emit_def inner)
  with a b c idle entry show ?thesis
    by (simp add: nm)
qed

text \<open>
  C3, as stated, fails. \<open>spawn\<close> returns a handle also for a process that cannot be
  launched; \<open>runProject\<close> stores the entry and broadcasts \<open>status\<close> at once, and the failure
  arrives later as the child's \<open>error\<close> event. In the run below the project \<open>/p\<close> is started
  and its spawn fails: after the start the registry holds \<open>/p\<close>, the \<open>status\<close> sent to the
  client and the answer of \<open>/api/running\<close> list it, and only the \<open>error\<close> event that follows
  reports the failure and takes the entry out.
\<close>

theorem spawn_failure_counterexample:
  "map_of (runningProcesses
       (snd (step (posix True (Child None)) (Message 7 (Data (cmd_msg ''run'' None))) one_client)))
     ''/p'' = Some \<lparr>name = ''P'', path = ''/p'', pid = None, process = 0\<rparr>
   \<and> fst (step (posix True (Child None)) (Message 7 (Data (cmd_msg ''run'' None))) one_client) =
       [Send 7 [(''type'', Str ''start''), (''projectPath'', Str ''/p''),
                (''projectName'', Str ''P''), (''command'', Str ''npm run dev''),
                (''message'', Str ''Starting P...'')],
        Spawn ''/bin/sh'' [Str ''-c'', Str ''npm run dev''] [Cwd ''/p'', Env_FORCE_COLOR],
        Send 7 [(''type'', Str ''status''),
                (''running'', Arr [Obj [(''id'', Str ''/p''), (''name'', Str ''P''),
                                        (''path'', Str ''/p'')]])]]
   \<and> api_running
       (snd (step (posix True (Child None)) (Message 7 (Data (cmd_msg ''run'' None))) one_client)) =
       Arr [Obj [(''id'', Str ''/p''), (''name'', Str ''P''), (''path'', Str ''/p'')]]
   \<and> fst (step (posix True (Child None)) (ChildError 0 ''spawn /bin/sh ENOENT'')
        (snd (step (posix True (Child None)) (Message 7 (Data (cmd_msg ''run'' None))) one_client))) =
       [Send 7 [(''type'', Str ''error''), (''projectPath'', Str ''/p''),
                (''message'', Str ''spawn /bin/sh ENOENT'')],
        Send 7 [(''type'', Str ''status''), (''running'', Arr [])]]"
proof -
  let ?w = "posix True (Child None)"
  let ?r = "step ?w (Message 7 (Data (cmd_msg ''run'' None))) one_client"
  let ?s1 = "new_child (RunListeners 7 ''/p'')
      (one_client\<lparr>runningProcesses := [(''/p'', \<lparr>name = ''P'', path = ''/p'', pid = None,
          process = 0\<rparr>)]\<rparr>)"
  have w: "existsSync ?w (path_join ?w ''/p'' ''node_modules'')" "spawn ?w = Child None"
    "platform ?w \<noteq> ''win32''"
    by (simp_all add: posix_def)
  have s: "\<not> crashed one_client" "runningProcesses one_client = []" "spawned one_client = 0"
    "clients one_client = [7]"
    by (simp_all add: one_client_def init_def)
  have hc: "handleCommand ?w 7 (cmd_msg ''run'' None) one_client
      = runProject ?w 7 ''/p'' ''P'' ''npm run dev'' one_client"
    by (simp add: cmd_msg_def handleCommand_def or_default_def)
  have rp: "runProject ?w 7 ''/p'' ''P'' ''npm run dev'' one_client
      = runProject_spawn ?w 7 ''/p'' ''P'' ''npm run dev'' one_client"
    using w(1) by (simp add: runProject_unfold s(2))
  have st: "snd ?r = ?s1"
    using s(1) w(2)
    by (simp add: step_message on_message_state hc rp runProject_spawn_state s(2,3))
  have bc: "broadcastStatus (one_client\<lparr>runningProcesses :=
        [(''/p'', \<lparr>name = ''P'', path = ''/p'', pid = None, process = 0\<rparr>)]\<rparr>) =
      [Send 7 [(''type'', Str ''status''),
                (''running'', Arr [Obj [(''id'', Str ''/p''), (''name'', Str ''P''),
                                        (''path'', Str ''/p'')]])]]"
    by (simp add: broadcastStatus_def running_list_def stringify_def pid_val_def s(4))
  have th: "snd (snd (handleCommand ?w 7 (cmd_msg ''run'' None) one_client)) = None"
    using w(2) by (simp add: hc rp runProject_spawn_thrown)
  have out: "fst ?r =
       [Send 7 [(''type'', Str ''start''), (''projectPath'', Str ''/p''),
                (''projectName'', Str ''P''), (''command'', Str ''npm run dev''),
                (''message'', Str ''Starting P...'')],
        Spawn ''/bin/sh'' [Str ''-c'', Str ''npm run dev''] [Cwd ''/p'', Env_FORCE_COLOR],
        Send 7 [(''type'', Str ''status''),
                (''running'', Arr [Obj [(''id'', Str ''/p''), (''name'', Str ''P''),
                                        (''path'', Str ''/p'')]])]]"
    using s(1) w(2,3)
    by (simp add: step_message on_message_returned [OF th] hc rp runProject_spawn_effects
        s(2,3) bc ws_send_def stringify_def)
  have api: "api_running ?s1 =
       Arr [Obj [(''id'', Str ''/p''), (''name'', Str ''P''), (''path'', Str ''/p'')]]"
    by (simp add: api_running_def running_list_def stringify_def pid_val_def)
  have ch: "children ?s1 0 = Some (RunListeners 7 ''/p'')" and al: "\<not> crashed ?s1"
    using s(1,3) by (simp_all add: new_child_def)
  have err: "fst (step ?w (ChildError 0 ''spawn /bin/sh ENOENT'') ?s1) =
       [Send 7 [(''type'', Str ''error''), (''projectPath'', Str ''/p''),
                (''message'', Str ''spawn /bin/sh ENOENT'')],
        Send 7 [(''type'', Str ''status''), (''running'', Arr [])]]"
    unfolding step_run_error [OF al ch]
    by (simp add: run_on_error_def Let_def broadcastStatus_def running_list_def s(4)
        ws_send_def stringify_def)
  show ?thesis
    unfolding st using out api err by simp
qed

text \<open>
  C3, amended. A start for a path without an entry calls \<open>spawn\<close>. If \<open>spawn\<close> throws, the
  state is left as it was, so no entry is created, and the last event sent to the caller is
  an \<open>error\<close> with the exception's message. If \<open>spawn\<close> returns a handle, the entry is created
  and listed in the \<open>status\<close> broadcast that ends the start; when the child's \<open>error\<close> event
  later reports that the process could not be launched, an \<open>error\<close> event with the path and
  the message is sent to the caller, the entry is removed, and the \<open>status\<close> broadcast that
  follows is built from the registry without it.
\<close>

theorem spawn_failure:
  assumes "\<not> crashed s" and "handles_fresh s"
    and "map_of (runningProcesses s) p = None"
    and "a \<in> {''run'', ''deploy'', ''install''}"
    and "r = step w (Message ws (Data \<lparr>action = a, projectPath = p, projectName = n,
                                        command = k\<rparr>)) s"
    and "s2 = snd (run tr (snd r))"
    and "s3 = s2\<lparr>runningProcesses := AList.delete p (runningProcesses s2)\<rparr>"
  shows "(spawn w = Throws e \<longrightarrow>
            snd r = s \<and> last (fst r) = Send ws [(''type'', Str ''error''), (''message'', Str e)])
       \<and> (spawn w = Child cp \<longrightarrow>
            map_of (runningProcesses (snd r)) p
              = Some \<lparr>name = n, path = p, pid = cp, process = spawned s\<rparr>
            \<and> Str p \<in> set (map (field ''id'') (running_list (snd r)))
            \<and> (\<exists>before. fst r = before @ broadcastStatus (snd r))
            \<and> (\<not> crashed s2 \<longrightarrow>
                 step w' (ChildError (spawned s) err) s2 =
                   (Send ws [(''type'', Str ''error''), (''projectPath'', Str p),
                             (''message'', Str err)] # broadcastStatus s3, s3)
                 \<and> map_of (runningProcesses s3) p = None
                 \<and> Str p \<notin> set (map (field ''id'') (running_list s3))))"
proof -
  obtain cmd where h: "handleCommand w ws \<lparr>action = a, projectPath = p, projectName = n,
      command = k\<rparr> s = runProject w ws p n cmd s"
    using handleCommand_start [OF assms(4)] by blast
  have thrown: "snd r = s \<and> last (fst r) = Send ws [(''type'', Str ''error''), (''message'', Str e)]"
    if "spawn w = Throws e"
  proof -
    have "snd (snd (handleCommand w ws \<lparr>action = a, projectPath = p, projectName = n,
        command = k\<rparr> s)) = Some e"
      using that assms(3) by (simp add: h runProject_thrown)
    from on_message_thrown [OF this] that assms(1,3) show ?thesis
      unfolding assms(5)
      by (simp add: step_message h runProject_state ws_send_def stringify_def)
  qed
  have returned: "map_of (runningProcesses (snd r)) p
              = Some \<lparr>name = n, path = p, pid = cp, process = spawned s\<rparr>
            \<and> Str p \<in> set (map (field ''id'') (running_list (snd r)))
            \<and> (\<exists>before. fst r = before @ broadcastStatus (snd r))
            \<and> (\<not> crashed s2 \<longrightarrow>
                 step w' (ChildError (spawned s) err) s2 =
                   (Send ws [(''type'', Str ''error''), (''projectPath'', Str p),
                             (''message'', Str err)] # broadcastStatus s3, s3)
                 \<and> map_of (runningProcesses s3) p = None
                 \<and> Str p \<notin> set (map (field ''id'') (running_list s3)))"
    if sp: "spawn w = Child cp"
  proof -
    let ?s1 = "s\<lparr>runningProcesses :=
        AList.update p \<lparr>name = n, path = p, pid = cp, process = spawned s\<rparr> (runningProcesses s)\<rparr>"
    have th: "snd (snd (handleCommand w ws \<lparr>action = a, projectPath = p, projectName = n,
        command = k\<rparr> s)) = None"
      using sp assms(3) by (simp add: h runProject_thrown)
    have r: "r = (fst (runProject w ws p n cmd s), new_child (RunListeners ws p) ?s1)"
      unfolding assms(5) using assms(1,3) sp
      by (simp add: step_message on_message_returned [OF th] h runProject_state)
    have entry: "map_of (runningProcesses (snd r)) p
              = Some \<lparr>name = n, path = p, pid = cp, process = spawned s\<rparr>"
      by (simp add: r update_conv')
    have "p \<in> fst ` set (runningProcesses (snd r))"
      by (simp add: r dom_update)
    then have listed: "Str p \<in> set (map (field ''id'') (running_list (snd r)))"
      by (auto simp: listed_ids)
    have same: "broadcastStatus (snd r) = broadcastStatus ?s1"
      by (simp add: r broadcastStatus_def running_list_def)
    have "\<exists>before. fst (runProject w ws p n cmd s) = before @ broadcastStatus ?s1"
      using assms(3) sp by (simp add: runProject_unfold emit_def runProject_spawn_effects)
    then have ends: "\<exists>before. fst r = before @ broadcastStatus (snd r)"
      unfolding same by (simp add: r)
    have fresh1: "handles_fresh (snd r)"
      using assms(2) by (simp add: r new_child_keeps)
    have "children (snd r) (spawned s) = Some (RunListeners ws p)"
      by (simp add: r new_child_def)
    with run_keeps [OF fresh1, of tr]
    have listeners: "children s2 (spawned s) = Some (RunListeners ws p)"
      unfolding assms(6) by blast
    have failure: "step w' (ChildError (spawned s) err) s2 =
                   (Send ws [(''type'', Str ''error''), (''projectPath'', Str p),
                             (''message'', Str err)] # broadcastStatus s3, s3)"
      if "\<not> crashed s2"
      unfolding step_run_error [OF that listeners] assms(7)
      by (simp add: run_on_error_def Let_def ws_send_def stringify_def)
    have gone: "map_of (runningProcesses s3) p = None"
      by (simp add: assms(7) delete_conv')
    have unlisted: "Str p \<notin> set (map (field ''id'') (running_list s3))"
      unfolding assms(7) by (rule not_listed_after_delete)
    from entry listed ends failure gone unlisted show ?thesis by blast
  qed
  from thrown returned show ?thesis by blast
qed

theorem spawn_failure_witness:
  "\<not> crashed one_client \<and> handles_fresh one_client
   \<and> map_of (runningProcesses one_client) ''/p'' = None
   \<and> spawn (posix True (Child None)) = Child None
   \<and> map_of (runningProcesses
         (snd (step (posix True (Child None)) (Message 7 (Data (cmd_msg ''run'' None))) one_client)))
       ''/p'' = Some \<lparr>name = ''P'', path = ''/p'', pid = None, process = 0\<rparr>
   \<and> map_of (runningProcesses
         (snd (step (posix True (Child None)) (ChildError 0 ''spawn /bin/sh ENOENT'')
           (snd (step (posix True (Child None)) (Message 7 (Data (cmd_msg ''run'' None)))
                   one_client)))))
       ''/p'' = None"
proof -
  let ?w = "posix True (Child None)"
  let ?r = "step ?w (Message 7 (Data \<lparr>action = ''run'', projectPath = ''/p'',
      projectName = ''P'', command = None\<rparr>)) one_client"
  have a: "\<not> crashed one_client" and b: "handles_fresh one_client"
    and c: "map_of (runningProcesses one_client) ''/p'' = None"
    and sp: "spawned one_client = 0"
    by (simp_all add: one_client_def init_def handles_fresh_def)
  have d: "''run'' \<in> {''run'', ''deploy'', ''install''}"
    by simp
  have w: "spawn ?w = Child None"
    by (simp add: posix_def)
  have "snd ?r = new_child (RunListeners 7 ''/p'')
      (one_client\<lparr>runningProcesses := AList.update ''/p''
          \<lparr>name = ''P'', path = ''/p'', pid = None, process = spawned one_client\<rparr>
          (runningProcesses one_client)\<rparr>)"
    using a c w by (simp add: step_message on_message_state handleCommand_run runProject_state)
  then have alive: "\<not> crashed (snd (run [] (snd ?r)))"
    using a by simp
  from spawn_failure [where w = ?w and ws = 7 and n = "''P''" and k = None and tr = "[]"
      and e = "''boom''" and cp = None and w' = ?w and err = "''spawn /bin/sh ENOENT''",
      OF a b c d refl refl refl] a b c w alive
  show ?thesis
    by (simp add: cmd_msg_def sp)
qed

text \<open>
  C4, as stated, fails for a process that a signal ends. Such a process closes with the
  code \<open>null\<close>, and the \<open>exit\<close> event then carries \<open>null\<close>, not a number. In the run below
  \<open>/p\<close> is started and stopped, so that \<open>stopProject\<close> sends \<open>SIGTERM\<close> to the child; when the
  child closes, the client is sent an \<open>exit\<close> event whose code is \<open>null\<close>.
\<close>

theorem exit_code_counterexample:
  "fst (step (posix True (Child None)) (Message 7 (Data (cmd_msg ''stop'' None)))
        (snd (step (posix True (Child (Some 4242))) (Message 7 (Data (cmd_msg ''run'' None)))
                one_client))) =
     [Send 7 [(''type'', Str ''info''), (''projectPath'', Str ''/p''),
              (''message'', Str ''Stopping P...'')],
      Kill 0 ''SIGTERM'',
      Send 7 [(''type'', Str ''status''), (''running'', Arr [])],
      Send 7 [(''type'', Str ''stopped''), (''projectPath'', Str ''/p''),
              (''message'', Str ''P stopped'')]]
   \<and> fst (step (posix True (Child None)) (ChildClose 0 None)
        (snd (step (posix True (Child None)) (Message 7 (Data (cmd_msg ''stop'' None)))
          (snd (step (posix True (Child (Some 4242))) (Message 7 (Data (cmd_msg ''run'' None)))
                  one_client))))) =
     [Send 7 [(''type'', Str ''exit''), (''projectPath'', Str ''/p''), (''code'', Null),
              (''message'', Str ''Process exited with code null'')],
      Send 7 [(''type'', Str ''status''), (''running'', Arr [])]]"
proof -
  let ?w = "posix True (Child (Some 4242))"
  let ?v = "posix True (Child None)"
  let ?e = "\<lparr>name = ''P'', path = ''/p'', pid = Some 4242, process = 0\<rparr>"
  let ?s1 = "new_child (RunListeners 7 ''/p'') (one_client\<lparr>runningProcesses := [(''/p'', ?e)]\<rparr>)"
  let ?s2 = "?s1\<lparr>runningProcesses := []\<rparr>"
  have s: "\<not> crashed one_client" "runningProcesses one_client = []" "spawned one_client = 0"
    "clients one_client = [7]"
    by (simp_all add: one_client_def init_def)
  have w: "spawn ?w = Child (Some 4242)" "platform ?v \<noteq> ''win32''"
    by (simp_all add: posix_def)
  have s1: "snd (step ?w (Message 7 (Data (cmd_msg ''run'' None))) one_client) = ?s1"
    using s(1) w(1)
    by (simp add: cmd_msg_def step_message on_message_state handleCommand_run runProject_state
        s(2,3))
  have al: "\<not> crashed ?s1" "\<not> crashed ?s2"
    using s(1) by simp_all
  have stop: "handleCommand ?v 7 (cmd_msg ''stop'' None) ?s1 =
      ([Send 7 [(''type'', Str ''info''), (''projectPath'', Str ''/p''),
              (''message'', Str ''Stopping P...'')],
        Kill 0 ''SIGTERM'',
        Send 7 [(''type'', Str ''status''), (''running'', Arr [])],
        Send 7 [(''type'', Str ''stopped''), (''projectPath'', Str ''/p''),
              (''message'', Str ''P stopped'')]], ?s2, None)"
    using w(2)
    by (simp add: cmd_msg_def handleCommand_def stopProject_def emit_def Let_def
        broadcastStatus_def running_list_def ws_send_def stringify_def s(4))
  have st: "step ?v (Message 7 (Data (cmd_msg ''stop'' None))) ?s1 =
      ([Send 7 [(''type'', Str ''info''), (''projectPath'', Str ''/p''),
              (''message'', Str ''Stopping P...'')],
        Kill 0 ''SIGTERM'',
        Send 7 [(''type'', Str ''status''), (''running'', Arr [])],
        Send 7 [(''type'', Str ''stopped''), (''projectPath'', Str ''/p''),
              (''message'', Str ''P stopped'')]], ?s2)"
    unfolding step_message [OF al(1)] by (simp add: on_message_def stop)
  have ch: "children ?s2 0 = Some (RunListeners 7 ''/p'')"
    by (simp add: new_child_def s(3))
  have cl: "fst (step ?v (ChildClose 0 None) ?s2) =
     [Send 7 [(''type'', Str ''exit''), (''projectPath'', Str ''/p''), (''code'', Null),
              (''message'', Str ''Process exited with code null'')],
      Send 7 [(''type'', Str ''status''), (''running'', Arr [])]]"
    unfolding step_run_close [OF al(2) ch]
    by (simp add: run_on_close_def Let_def code_val_def code_text_def broadcastStatus_def
        running_list_def ws_send_def stringify_def s(4))
  show ?thesis
    unfolding s1 st using cl by simp
qed

text \<open>
  C4, amended. A start on connection \<open>ws\<close> has spawned a process for path \<open>p\<close>; any events
  follow, and the server is still up. When the process then terminates, the server sends an
  \<open>exit\<close> event carrying \<open>p\<close> and the code to \<open>ws\<close>, the connection that started it; the code
  is the exit code, a number that is zero or not, or \<open>null\<close> when a signal ended the process.
  The server removes the entry of \<open>p\<close> and broadcasts a \<open>status\<close> built from the registry after
  the removal, which does not list \<open>p\<close>. Nothing else changes: the open connections stay
  open and the server keeps running, whatever the code.
\<close>

theorem process_exit:
  assumes "\<not> crashed s" and "handles_fresh s"
    and "map_of (runningProcesses s) p = None" and "spawn w = Child cp"
    and "a \<in> {''run'', ''deploy'', ''install''}"
    and "s1 = snd (step w (Message ws (Data \<lparr>action = a, projectPath = p, projectName = n,
                                              command = k\<rparr>)) s)"
    and "s2 = snd (run tr s1)" and "\<not> crashed s2"
    and "s3 = s2\<lparr>runningProcesses := AList.delete p (runningProcesses s2)\<rparr>"
  shows "step w' (ChildClose (spawned s) code) s2 =
           (Send ws [(''type'', Str ''exit''), (''projectPath'', Str p),
                     (''code'', case code of None \<Rightarrow> Null | Some c \<Rightarrow> Num c),
                     (''message'',
                      Str (case code of
                             None \<Rightarrow> ''Process exited with code null''
                           | Some c \<Rightarrow>
                               if c = 0 then ''Process completed successfully''
                               else ''Process exited with code '' @ show_int c))]
            # broadcastStatus s3, s3)
       \<and> map_of (runningProcesses s3) p = None
       \<and> Str p \<notin> set (map (field ''id'') (running_list s3))
       \<and> clients s3 = clients s2 \<and> \<not> crashed s3"
proof -
  obtain cmd where h: "handleCommand w ws \<lparr>action = a, projectPath = p, projectName = n,
      command = k\<rparr> s = runProject w ws p n cmd s"
    using handleCommand_start [OF assms(5)] by blast
  have s1: "s1 = new_child (RunListeners ws p)
      (s\<lparr>runningProcesses := AList.update p \<lparr>name = n, path = p, pid = cp, process = spawned s\<rparr>
            (runningProcesses s)\<rparr>)"
    unfolding assms(6) using assms(1,3,4)
    by (simp add: step_message on_message_state h runProject_state)
  have fresh1: "handles_fresh s1"
    unfolding s1 using assms(2) by (simp add: new_child_keeps)
  have "children s1 (spawned s) = Some (RunListeners ws p)"
    by (simp add: s1 new_child_def)
  with run_keeps [OF fresh1, of tr] have listeners: "children s2 (spawned s) = Some (RunListeners ws p)"
    unfolding assms(7) by blast
  have close: "step w' (ChildClose (spawned s) code) s2 =
           (Send ws [(''type'', Str ''exit''), (''projectPath'', Str p),
                     (''code'', case code of None \<Rightarrow> Null | Some c \<Rightarrow> Num c),
                     (''message'',
                      Str (case code of
                             None \<Rightarrow> ''Process exited with code null''
                           | Some c \<Rightarrow>
                               if c = 0 then ''Process completed successfully''
                               else ''Process exited with code '' @ show_int c))]
            # broadcastStatus s3, s3)"
    unfolding step_run_close [OF assms(8) listeners] assms(9)
    by (cases code)
       (simp_all add: run_on_close_def Let_def ws_send_def stringify_def code_val_def
          code_text_def)
  have gone: "map_of (runningProcesses s3) p = None"
    by (simp add: assms(9) delete_conv')
  have unlisted: "Str p \<notin> set (map (field ''id'') (running_list s3))"
    unfolding assms(9) by (rule not_listed_after_delete)
  have rest: "clients s3 = clients s2" "\<not> crashed s3"
    using assms(8) by (simp_all add: assms(9))
  from close gone unlisted rest show ?thesis by blast
qed

theorem process_exit_witness:
  "\<not> crashed one_client \<and> handles_fresh one_client
   \<and> map_of (runningProcesses one_client) ''/p'' = None
   \<and> fst (step (posix True (Child None)) (ChildClose 0 (Some 3))
        (snd (step (posix True (Child (Some 4242)))
                (Message 7 (Data (cmd_msg ''run'' (Some ''exit 3'')))) one_client))) =
       [Send 7 [(''type'', Str ''exit''), (''projectPath'', Str ''/p''), (''code'', Num 3),
                (''message'', Str ''Process exited with code 3'')],
        Send 7 [(''type'', Str ''status''), (''running'', Arr [])]]"
proof -
  let ?w = "posix True (Child (Some 4242))"
  let ?s1 = "snd (step ?w (Message 7 (Data \<lparr>action = ''run'', projectPath = ''/p'',
      projectName = ''P'', command = Some ''exit 3''\<rparr>)) one_client)"
  have a: "\<not> crashed one_client" and b: "handles_fresh one_client"
    and c: "map_of (runningProcesses one_client) ''/p'' = None"
    by (simp_all add: one_client_def init_def handles_fresh_def)
  have d: "spawn ?w = Child (Some 4242)"
    by (simp add: posix_def)
  have e: "''run'' \<in> {''run'', ''deploy'', ''install''}"
    by simp
  have f: "?s1 = snd (run [] ?s1)"
    by simp
  have s1: "?s1 = new_child (RunListeners 7 ''/p'')
      (one_client\<lparr>runningProcesses := AList.update ''/p''
          \<lparr>name = ''P'', path = ''/p'', pid = Some 4242, process = spawned one_client\<rparr>
          (runningProcesses one_client)\<rparr>)"
    using a c d by (simp add: step_message on_message_state handleCommand_run runProject_state)
  have g: "\<not> crashed ?s1"
    using a by (simp add: s1)
  have sp: "spawned one_client = 0"
    by (simp add: one_client_def init_def)
  have bc: "broadcastStatus (?s1\<lparr>runningProcesses := AList.delete ''/p'' (runningProcesses ?s1)\<rparr>)
      = [Send 7 [(''type'', Str ''status''), (''running'', Arr [])]]"
    unfolding s1
    by (simp add: broadcastStatus_def running_list_def stringify_def one_client_def init_def)
  have sh: "show_int 3 = ''3''"
    by (simp add: show_int_def)
  from process_exit [where w' = "posix True (Child None)" and code = "Some 3",
      OF a b c d e refl f g refl] a b c
  show ?thesis
    unfolding sp bc by (simp add: cmd_msg_def sh)
qed




text \<open>
  C6. \<open>clean\<close> on a project without a dependency directory sends one \<open>info\<close> event and does
  nothing else: no command is spawned and the state is unchanged. \<open>clean\<close> on a project that
  has the directory sends \<open>info\<close> and spawns the recursive forced removal (\<open>rm -rf\<close>, or
  \<open>rmdir /s /q\<close> on Windows) of the directory; when that process ends, whatever happened in
  between, the caller is sent \<open>success\<close> if the exit code is 0 and \<open>error\<close> otherwise.
\<close>

theorem clean_project:
  assumes "\<not> crashed s" and "handles_fresh s"
    and "nm = path_join w p ''node_modules''"
    and "r = step w (Message ws (Data \<lparr>action = ''clean'', projectPath = p, projectName = n,
                                         command = k\<rparr>)) s"
  shows "(\<not> existsSync w nm \<longrightarrow>
            r = ([Send ws [(''type'', Str ''info''), (''projectPath'', Str p),
                           (''message'', Str (n @ '' has no node_modules to clean''))]], s))
       \<and> (existsSync w nm \<and> spawn w = Child cp \<longrightarrow>
            fst r = [Send ws [(''type'', Str ''info''), (''projectPath'', Str p),
                              (''message'', Str (''Cleaning node_modules from '' @ n @ ''...''))],
                     Spawn (if platform w = ''win32'' then ''rmdir'' else ''rm'')
                           (if platform w = ''win32'' then [Str ''/s'', Str ''/q'', Str nm]
                            else [Str ''-rf'', Str nm])
                           [Shell]]
            \<and> (\<not> crashed (snd (run tr (snd r))) \<longrightarrow>
                 step w' (ChildClose (spawned s) code) (snd (run tr (snd r))) =
                   ([Send ws (if code = Some 0
                              then [(''type'', Str ''success''), (''projectPath'', Str p),
                                    (''message'', Str (''Cleaned node_modules from '' @ n))]
                              else [(''type'', Str ''error''), (''projectPath'', Str p),
                                    (''message'', Str (''Failed to clean '' @ n))])],
                    snd (run tr (snd r)))))"
proof -
  have hc: "handleCommand w ws \<lparr>action = ''clean'', projectPath = p, projectName = n,
      command = k\<rparr> s = cleanProject w ws p n s"
    by (simp add: handleCommand_def)
  have absent: "r = ([Send ws [(''type'', Str ''info''), (''projectPath'', Str p),
                           (''message'', Str (n @ '' has no node_modules to clean''))]], s)"
    if "\<not> existsSync w nm"
    using that assms(1) unfolding assms(3,4)
    by (simp add: step_message on_message_def hc cleanProject_def ws_send_def stringify_def)
  have present: "r = ([Send ws [(''type'', Str ''info''), (''projectPath'', Str p),
                              (''message'', Str (''Cleaning node_modules from '' @ n @ ''...''))],
                     Spawn (if platform w = ''win32'' then ''rmdir'' else ''rm'')
                           (if platform w = ''win32'' then [Str ''/s'', Str ''/q'', Str nm]
                            else [Str ''-rf'', Str nm])
                           [Shell]],
                    new_child (CleanListeners ws p n) s)"
    if "existsSync w nm" "spawn w = Child cp"
    using that assms(1) unfolding assms(3,4)
    by (simp add: step_message on_message_def hc cleanProject_def emit_def ws_send_def
        stringify_def)
  have later: "step w' (ChildClose (spawned s) code) (snd (run tr (snd r))) =
                   ([Send ws (if code = Some 0
                              then [(''type'', Str ''success''), (''projectPath'', Str p),
                                    (''message'', Str (''Cleaned node_modules from '' @ n))]
                              else [(''type'', Str ''error''), (''projectPath'', Str p),
                                    (''message'', Str (''Failed to clean '' @ n))])],
                    snd (run tr (snd r)))"
    if "existsSync w nm" "spawn w = Child cp" "\<not> crashed (snd (run tr (snd r)))"
  proof -
    have r: "snd r = new_child (CleanListeners ws p n) s"
      using present [OF that(1,2)] by simp
    have fresh: "handles_fresh (snd r)"
      unfolding r using assms(2) by (rule new_child_keeps)
    have "children (snd r) (spawned s) = Some (CleanListeners ws p n)"
      by (simp add: r)
    with run_keeps [OF fresh, of tr]
    have "children (snd (run tr (snd r))) (spawned s) = Some (CleanListeners ws p n)"
      by blast
    from step_clean_close [OF that(3) this] show ?thesis
      by (simp add: clean_on_close_def ws_send_def stringify_def)
  qed
  from absent present later show ?thesis by simp
qed

theorem clean_project_witness:
  "\<not> crashed one_client \<and> handles_fresh one_client
   \<and> existsSync (posix True (Child (Some 4242))) ''/p/node_modules''
   \<and> fst (step (posix True (Child (Some 4242))) (Message 7 (Data (cmd_msg ''clean'' None)))
            one_client) =
       [Send 7 [(''type'', Str ''info''), (''projectPath'', Str ''/p''),
                (''message'', Str ''Cleaning node_modules from P...'')],
        Spawn ''rm'' [Str ''-rf'', Str ''/p/node_modules''] [Shell]]
   \<and> fst (step (posix False (Child None)) (ChildClose 0 (Some 1))
            (snd (step (posix True (Child (Some 4242))) (Message 7 (Data (cmd_msg ''clean'' None)))
                    one_client))) =
       [Send 7 [(''type'', Str ''error''), (''projectPath'', Str ''/p''),
                (''message'', Str ''Failed to clean P'')]]
   \<and> step (posix False (Child None)) (Message 7 (Data (cmd_msg ''clean'' None))) one_client =
       ([Send 7 [(''type'', Str ''info''), (''projectPath'', Str ''/p''),
                 (''message'', Str ''P has no node_modules to clean'')]], one_client)"
proof -
  let ?w = "posix True (Child (Some 4242))"
  let ?v = "posix False (Child None)"
  let ?m = "Message 7 (Data \<lparr>action = ''clean'', projectPath = ''/p'', projectName = ''P'',
      command = None\<rparr>)"
  have a: "\<not> crashed one_client" and b: "handles_fresh one_client"
    and sp: "spawned one_client = 0"
    by (simp_all add: one_client_def init_def handles_fresh_def)
  have nm: "''/p/node_modules'' = path_join ?w ''/p'' ''node_modules''"
    "''/p/node_modules'' = path_join ?v ''/p'' ''node_modules''"
    by (simp_all add: posix_def)
  have ex: "existsSync ?w ''/p/node_modules''" "\<not> existsSync ?v ''/p/node_modules''"
    "spawn ?w = Child (Some 4242)" "platform ?w \<noteq> ''win32''"
    by (simp_all add: posix_def)
  have s1: "snd (step ?w ?m one_client) = new_child (CleanListeners 7 ''/p'' ''P'') one_client"
    using a ex(1,3)
    by (simp add: step_message on_message_state handleCommand_def cleanProject_def emit_def
        nm(1) [symmetric])
  have alive: "\<not> crashed (snd (run [] (snd (step ?w ?m one_client))))"
    using a by (simp add: s1)
  from clean_project [OF a b nm(1) refl, of 7 "''P''" None "Some 4242" "[]" ?v "Some 1"]
    clean_project [OF a b nm(2) refl, of 7 "''P''" None]
    a b ex alive
  show ?thesis
    by (simp add: cmd_msg_def sp)
qed

text \<open>
  C7. \<open>stop\<close> on a path with no live entry sends exactly one \<open>error\<close> event (process not
  found) to the caller, leaves the state as it was, and broadcasts no \<open>status\<close>.
\<close>

theorem stop_without_entry:
  assumes "\<not> crashed s" and "map_of (runningProcesses s) p = None"
  shows "stopProject w ws p s =
           ([Send ws [(''type'', Str ''error''), (''projectPath'', Str p),
                      (''message'', Str ''Process not found or already stopped'')]], s, None)
       \<and> step w (Message ws (Data \<lparr>action = ''stop'', projectPath = p, projectName = n,
                                    command = k\<rparr>)) s =
           ([Send ws [(''type'', Str ''error''), (''projectPath'', Str p),
                      (''message'', Str ''Process not found or already stopped'')]], s)
       \<and> filter is_status (fst (step w (Message ws (Data \<lparr>action = ''stop'', projectPath = p,
                                    projectName = n, command = k\<rparr>)) s)) = []"
proof -
  have stop: "stopProject w ws p s =
           ([Send ws [(''type'', Str ''error''), (''projectPath'', Str p),
                      (''message'', Str ''Process not found or already stopped'')]], s, None)"
    using assms(2) by (simp add: stopProject_def ws_send_def stringify_def)
  have hc: "handleCommand w ws \<lparr>action = ''stop'', projectPath = p, projectName = n, command = k\<rparr> s
          = stopProject w ws p s"
    by (simp add: handleCommand_def)
  have st: "step w (Message ws (Data \<lparr>action = ''stop'', projectPath = p, projectName = n,
                                    command = k\<rparr>)) s =
           ([Send ws [(''type'', Str ''error''), (''projectPath'', Str p),
                      (''message'', Str ''Process not found or already stopped'')]], s)"
    using assms(1) by (simp add: step_message on_message_def hc stop)
  have "\<not> is_status (Send ws [(''type'', Str ''error''), (''projectPath'', Str p),
                      (''message'', Str ''Process not found or already stopped'')])"
    by (simp add: is_status_def)
  with stop st show ?thesis by simp
qed

theorem stop_without_entry_witness:
  "\<not> crashed one_client \<and> map_of (runningProcesses one_client) ''/p'' = None
   \<and> step (posix True (Child None)) (Message 7 (Data (cmd_msg ''stop'' None))) one_client =
       ([Send 7 [(''type'', Str ''error''), (''projectPath'', Str ''/p''),
                 (''message'', Str ''Process not found or already stopped'')]], one_client)"
proof -
  have a: "\<not> crashed one_client" and b: "map_of (runningProcesses one_client) ''/p'' = None"
    by (simp_all add: one_client_def init_def)
  from stop_without_entry [OF a b, of "posix True (Child None)" 7 "''P''" None] a b
  show ?thesis by (simp add: cmd_msg_def)
qed

text \<open>
  C8, as stated, fails. The \<open>error\<close> event that the message listener sends for a frame that
  does not parse, and the one \<open>handleCommand\<close> sends for an unknown action, are built from
  \<open>type\<close> and \<open>message\<close> alone: neither is a \<open>status\<close> event and neither has a \<open>projectPath\<close>.
  Nor has the \<open>error\<close> event with which \<open>stopProject\<close> answers a \<open>stop\<close> frame that has no
  \<open>projectPath\<close>: it is built with \<open>projectPath: undefined\<close>, which \<open>JSON.stringify\<close> drops.
\<close>

theorem projectPath_counterexample:
  "fst (step (posix True (Child None)) (Message 7 (Unparsable ''Unexpected end of JSON input''))
         one_client) =
     [Send 7 [(''type'', Str ''error''), (''message'', Str ''Unexpected end of JSON input'')]]
   \<and> \<not> carries ''projectPath''
         [(''type'', Str ''error''), (''message'', Str ''Unexpected end of JSON input'')]
   \<and> fst (step (posix True (Child None)) (Message 7 (Data (cmd_msg ''zap'' None))) one_client) =
     [Send 7 [(''type'', Str ''error''), (''message'', Str ''Unknown action: zap'')]]
   \<and> \<not> carries ''projectPath''
         [(''type'', Str ''error''), (''message'', Str ''Unknown action: zap'')]
   \<and> fst (step (posix True (Child None))
         (Message 7 (DataOther \<lparr>other_action = ''stop'', other_path = Absent, other_name = ''P'',
                                 other_command = None\<rparr>)) one_client) =
     [Send 7 [(''type'', Str ''error''),
              (''message'', Str ''Process not found or already stopped'')]]
   \<and> \<not> carries ''projectPath''
         [(''type'', Str ''error''), (''message'', Str ''Process not found or already stopped'')]"
proof -
  have a: "\<not> crashed one_client"
    by (simp add: one_client_def init_def)
  have one: "fst (step (posix True (Child None))
      (Message 7 (Unparsable ''Unexpected end of JSON input'')) one_client) =
     [Send 7 [(''type'', Str ''error''), (''message'', Str ''Unexpected end of JSON input'')]]"
    using a by (simp add: step_message on_message_def ws_send_def stringify_def)
  have "handleCommand (posix True (Child None)) 7 (cmd_msg ''zap'' None) one_client =
      ([Send 7 [(''type'', Str ''error''), (''message'', Str ''Unknown action: zap'')]],
       one_client, None)"
    by (simp add: handleCommand_def cmd_msg_def ws_send_def stringify_def)
  then have two: "fst (step (posix True (Child None)) (Message 7 (Data (cmd_msg ''zap'' None)))
      one_client) =
     [Send 7 [(''type'', Str ''error''), (''message'', Str ''Unknown action: zap'')]]"
    using a by (simp add: step_message on_message_def)
  have "handleCommand_other (posix True (Child None)) 7
      \<lparr>other_action = ''stop'', other_path = Absent, other_name = ''P'', other_command = None\<rparr>
      one_client =
      ([Send 7 [(''type'', Str ''error''),
                (''message'', Str ''Process not found or already stopped'')]], one_client, None)"
    by (simp add: handleCommand_other_def ws_send_def stringify_def)
  then have three: "fst (step (posix True (Child None))
         (Message 7 (DataOther \<lparr>other_action = ''stop'', other_path = Absent, other_name = ''P'',
                                 other_command = None\<rparr>)) one_client) =
     [Send 7 [(''type'', Str ''error''),
              (''message'', Str ''Process not found or already stopped'')]]"
    using a by (simp add: step_message on_message_def)
  show ?thesis
    using one two three by (simp add: carries_def)
qed

text \<open>
  C8, amended. Every event the server sends is a \<open>status\<close> event or carries a
  \<open>projectPath\<close>, with two exceptions. The first is the \<open>error\<close> event the channel itself
  sends to the sender of a frame, which consists of \<open>type\<close> and \<open>message\<close> only: it is sent
  for a frame that does not parse, for an exception caught while the command was handled,
  and for an action outside the six of the protocol. The second is the answer to a command
  frame that has no \<open>projectPath\<close>: the \<open>error\<close> event of \<open>stop\<close> and the \<open>info\<close> event of \<open>open\<close>
  are then built with an undefined \<open>projectPath\<close>, which \<open>JSON.stringify\<close> drops. In
  particular every event that answers a frame with a \<open>projectPath\<close> of any type, and every
  event a process listener sends, carries it, unless it is the channel's own \<open>error\<close>.
\<close>

theorem events_carry_projectPath:
  assumes "e \<in> set (fst (step w i s))"
  shows "addressed e
       \<or> (\<exists>ws fr reason.
            i = Message ws fr
            \<and> e = Send ws [(''type'', Str ''error''), (''message'', Str reason)]
            \<and> \<not> addressed e
            \<and> (fr = Unparsable reason
                \<or> (\<exists>d. fr = Data d
                      \<and> (snd (snd (handleCommand w ws d s)) = Some reason
                          \<or> action d \<notin> {''run'', ''deploy'', ''install'', ''stop'', ''open'', ''clean''}
                             \<and> reason = ''Unknown action: '' @ action d))
                \<or> (\<exists>d. fr = DataOther d
                      \<and> (snd (snd (handleCommand_other w ws d s)) = Some reason
                          \<or> other_action d \<notin> {''run'', ''deploy'', ''install'', ''stop'', ''open'',
                                                 ''clean''}
                             \<and> reason = ''Unknown action: '' @ other_action d))))
       \<or> (\<exists>ws d.
            i = Message ws (DataOther d) \<and> other_path d = Absent \<and> \<not> addressed e
            \<and> (other_action d = ''stop''
                  \<and> e = Send ws [(''type'', Str ''error''),
                                  (''message'', Str ''Process not found or already stopped'')]
                \<or> other_action d = ''open''
                  \<and> e = Send ws [(''type'', Str ''info''),
                                  (''message'', Str ''Opened folder: undefined'')]))"
proof -
  have bare: "\<not> addressed (Send ws [(''type'', Str ''error''), (''message'', Str reason)])"
    "\<not> addressed (Send ws [(''type'', Str ''info''), (''message'', Str reason)])"
    for ws reason
    by (simp_all add: addressed_def carries_def)
  from assms have alive: "\<not> crashed s"
    by (auto simp: step_def)
  show ?thesis
  proof (cases i)
    case (Message ws fr)
    show ?thesis
    proof (cases fr)
      case (Unparsable reason)
      with Message assms alive
      have "e = Send ws [(''type'', Str ''error''), (''message'', Str reason)]"
        by (simp add: step_message on_message_def ws_send_def stringify_def)
      with Message Unparsable bare show ?thesis by blast
    next
      case (Data d)
      let ?h = "handleCommand w ws d s"
      have known: "addressed x" if "x \<in> set (fst ?h)"
        and "action d \<in> {''run'', ''deploy'', ''install'', ''stop'', ''open'', ''clean''}" for x
        using that
        by (auto simp: handleCommand_def runProject_addressed stopProject_addressed
            openFolder_addressed cleanProject_addressed split: if_splits)
      have unknown: "?h = ([Send ws [(''type'', Str ''error''),
          (''message'', Str (''Unknown action: '' @ action d))]], s, None)"
        if "action d \<notin> {''run'', ''deploy'', ''install'', ''stop'', ''open'', ''clean''}"
        using that by (simp add: handleCommand_def ws_send_def stringify_def)
      show ?thesis
      proof (cases "snd (snd ?h)")
        case None
        from on_message_returned [OF this] Message Data assms alive
        have mem: "e \<in> set (fst ?h)"
          by (simp add: step_message)
        show ?thesis
        proof (cases "action d \<in> {''run'', ''deploy'', ''install'', ''stop'', ''open'', ''clean''}")
          case True
          with known mem show ?thesis by blast
        next
          case False
          with unknown mem
          have "e = Send ws [(''type'', Str ''error''),
              (''message'', Str (''Unknown action: '' @ action d))]"
            by simp
          with Message Data False bare show ?thesis by blast
        qed
      next
        case (Some reason)
        have is_known: "action d \<in> {''run'', ''deploy'', ''install'', ''stop'', ''open'', ''clean''}"
          using unknown Some by fastforce
        from on_message_thrown [OF Some] Message Data assms alive
        have "e \<in> set (fst ?h) \<or> e = Send ws [(''type'', Str ''error''), (''message'', Str reason)]"
          by (auto simp: step_message ws_send_def stringify_def)
        then show ?thesis
        proof
          assume "e \<in> set (fst ?h)"
          with known is_known show ?thesis by blast
        next
          assume "e = Send ws [(''type'', Str ''error''), (''message'', Str reason)]"
          with Message Data Some bare show ?thesis by blast
        qed
      qed
    next
      case (DataOther d)
      let ?h = "handleCommand_other w ws d s"
      let ?v = "js_of (other_path d)"
      let ?six = "{''run'', ''deploy'', ''install'', ''stop'', ''open'', ''clean''}"
      have caught: ?thesis
        if "snd (snd ?h) = Some reason"
          and "e = Send ws [(''type'', Str ''error''), (''message'', Str reason)]" for reason
        using that Message DataOther bare by blast
      have from_h: "e \<in> set (fst ?h)
          \<or> (\<exists>reason. snd (snd ?h) = Some reason
                \<and> e = Send ws [(''type'', Str ''error''), (''message'', Str reason)])"
      proof (cases "snd (snd ?h)")
        case None
        from on_message_other_returned [OF this] Message DataOther assms alive
        show ?thesis by (simp add: step_message)
      next
        case (Some reason)
        from on_message_other_thrown [OF Some] Message DataOther assms alive
        have "e \<in> set (fst ?h)
            \<or> e = Send ws [(''type'', Str ''error''), (''message'', Str reason)]"
          by (auto simp: step_message ws_send_def stringify_def)
        with Some show ?thesis by blast
      qed
      consider (start) "other_action d \<in> {''run'', ''deploy'', ''install'', ''clean''}"
        | (stop) "other_action d = ''stop''"
        | (opn) "other_action d = ''open''"
        | (unknown) "other_action d \<notin> ?six"
        by blast
      then show ?thesis
      proof cases
        case start
        then have "fst ?h = []"
          by (auto simp: handleCommand_other_def)
        with from_h caught show ?thesis by auto
      next
        case stop
        then have h: "?h = ([ws_send ws [(''type'', Str ''error''), (''projectPath'', ?v),
            (''message'', Str ''Process not found or already stopped'')]], s, None)"
          by (simp add: handleCommand_other_def)
        with from_h have e: "e = ws_send ws [(''type'', Str ''error''), (''projectPath'', ?v),
            (''message'', Str ''Process not found or already stopped'')]"
          by simp
        show ?thesis
        proof (cases "other_path d = Absent")
          case True
          with e have "e = Send ws [(''type'', Str ''error''),
              (''message'', Str ''Process not found or already stopped'')]"
            by (simp add: ws_send_def stringify_def)
          with Message DataOther True stop bare show ?thesis by blast
        next
          case False
          then have "?v \<noteq> Undefined"
            by (simp add: js_of_Undefined)
          then have "addressed e"
            unfolding e by (intro addressed_ws_send_value [where v = ?v]) simp_all
          then show ?thesis ..
        qed
      next
        case opn
        then have outs: "set (fst ?h) \<subseteq>
            {Spawn (if platform w = ''win32'' then ''explorer''
                    else if platform w = ''darwin'' then ''open'' else ''xdg-open'')
                   [?v] [Detached],
             ws_send ws [(''type'', Str ''info''), (''projectPath'', ?v),
                         (''message'', Str (''Opened folder: '' @ to_string ?v))]}"
          by (auto simp: handleCommand_other_def emit_def Let_def split: spawn_result.splits)
        from from_h show ?thesis
        proof
          assume "e \<in> set (fst ?h)"
          with outs consider
            (sp) "e = Spawn (if platform w = ''win32'' then ''explorer''
                    else if platform w = ''darwin'' then ''open'' else ''xdg-open'')
                   [?v] [Detached]"
            | (info) "e = ws_send ws [(''type'', Str ''info''), (''projectPath'', ?v),
                         (''message'', Str (''Opened folder: '' @ to_string ?v))]"
            by blast
          then show ?thesis
          proof cases
            case sp
            then have "addressed e" by simp
            then show ?thesis ..
          next
            case info
            show ?thesis
            proof (cases "other_path d = Absent")
              case True
              with info have "e = Send ws [(''type'', Str ''info''),
                  (''message'', Str ''Opened folder: undefined'')]"
                by (simp add: ws_send_def stringify_def)
              with Message DataOther True opn bare show ?thesis by blast
            next
              case False
              then have "?v \<noteq> Undefined"
                by (simp add: js_of_Undefined)
              then have "addressed e"
                unfolding info by (intro addressed_ws_send_value [where v = ?v]) simp_all
              then show ?thesis ..
            qed
          qed
        next
          assume "\<exists>reason. snd (snd ?h) = Some reason
                \<and> e = Send ws [(''type'', Str ''error''), (''message'', Str reason)]"
          with caught show ?thesis by blast
        qed
      next
        case unknown
        then have h: "?h = ([Send ws [(''type'', Str ''error''),
            (''message'', Str (''Unknown action: '' @ other_action d))]], s, None)"
          by (simp add: handleCommand_other_def ws_send_def stringify_def)
        with from_h have "e = Send ws [(''type'', Str ''error''),
            (''message'', Str (''Unknown action: '' @ other_action d))]"
          by simp
        with Message DataOther unknown bare show ?thesis by blast
      qed
    qed
  next
    case (Connection c)
    with assms alive show ?thesis by (simp add: step_def)
  next
    case (Disconnect c)
    with assms alive show ?thesis by (simp add: step_def)
  next
    case (ChildStdout k chunk)
    with assms alive have "addressed e"
      by (auto simp: step_def listeners_addressed split: option.splits listeners.splits)
    then show ?thesis ..
  next
    case (ChildStderr k chunk)
    with assms alive have "addressed e"
      by (auto simp: step_def listeners_addressed split: option.splits listeners.splits)
    then show ?thesis ..
  next
    case (ChildError k err)
    with assms alive have "addressed e"
      by (auto simp: step_def listeners_addressed split: option.splits listeners.splits)
    then show ?thesis ..
  next
    case (ChildClose k code)
    with assms alive have "addressed e"
      by (auto simp: step_def listeners_addressed split: option.splits listeners.splits)
    then show ?thesis ..
  qed
qed

theorem events_carry_projectPath_witness:
  "Send 7 [(''type'', Str ''error''), (''projectPath'', Str ''/p''),
           (''message'', Str ''Process not found or already stopped'')]
     \<in> set (fst (step (posix True (Child None)) (Message 7 (Data (cmd_msg ''stop'' None)))
                  one_client))
   \<and> addressed (Send 7 [(''type'', Str ''error''), (''projectPath'', Str ''/p''),
                         (''message'', Str ''Process not found or already stopped'')])"
proof -
  let ?e = "Send 7 [(''type'', Str ''error''), (''projectPath'', Str ''/p''),
           (''message'', Str ''Process not found or already stopped'')]"
  have a: "\<not> crashed one_client" and b: "map_of (runningProcesses one_client) ''/p'' = None"
    by (simp_all add: one_client_def init_def)
  have "handleCommand (posix True (Child None)) 7 (cmd_msg ''stop'' None) one_client =
      ([?e], one_client, None)"
    using b by (simp add: handleCommand_def cmd_msg_def stopProject_def ws_send_def stringify_def)
  then have mem: "?e \<in> set (fst (step (posix True (Child None))
      (Message 7 (Data (cmd_msg ''stop'' None))) one_client))"
    using a by (simp add: step_message on_message_def)
  from events_carry_projectPath [OF mem] have "addressed ?e"
    by blast
  with mem show ?thesis ..
qed



text \<open>
  C10. \<open>runProject\<close> terminates on every input: every argument tuple is in the domain of
  the recursion. The substituted command \<open>npm install\<close> contains \<open>install\<close>, so a call that
  was itself made recursively makes no recursive call: where \<open>runProject_rel x y\<close> says that
  the call with arguments \<open>y\<close> calls \<open>runProject\<close> again with arguments \<open>x\<close>, no \<open>z\<close> is called
  from \<open>x\<close>. Hence \<open>runProject\<close> is its two guards around the part that does not recurse,
  entered with the requested command or, after the warning, with \<open>npm install\<close>.
\<close>

theorem runProject_recursion:
  "All runProject_dom
   \<and> str_includes ''npm install'' ''install''
   \<and> (runProject_rel x y \<longrightarrow> \<not> runProject_rel z x)
   \<and> runProject w ws p n cmd s =
       (if map_of (runningProcesses s) p \<noteq> None then
          ([ws_send ws [(''type'', Str ''error''), (''projectPath'', Str p),
                        (''message'', Str (n @ '' is already running! Stop it first.''))]],
           s, None)
        else if \<not> existsSync w (path_join w p ''node_modules'') \<and> \<not> str_includes cmd ''install''
        then
          emit [ws_send ws [(''type'', Str ''warning''), (''projectPath'', Str p),
                            (''message'',
                             Str ''node_modules not found. Installing dependencies first...'')]]
            (runProject_spawn w ws p n ''npm install'' s)
        else runProject_spawn w ws p n cmd s)"
proof -
  have inst: "str_includes ''npm install'' ''install''"
    by simp
  have total: "All runProject_dom"
    by (relation "measure (\<lambda>(w, ws, projectPath, projectName, cmd, s).
                             if str_includes cmd ''install'' then 0 else 1)")
       auto
  have once: "\<not> runProject_rel z x" if "runProject_rel x y"
  proof
    assume "runProject_rel z x"
    then obtain w1 ws1 p1 n1 cmd1 s1 where x: "x = (w1, ws1, p1, n1, cmd1, s1)"
      and no: "\<not> str_includes cmd1 ''install''"
      by (cases rule: runProject_rel.cases) blast
    from that obtain w2 ws2 p2 n2 s2 where "x = (w2, ws2, p2, n2, ''npm install'', s2)"
      by (cases rule: runProject_rel.cases) blast
    with x have "cmd1 = ''npm install''"
      by simp
    with no inst show False
      by simp
  qed
  from inst total once runProject_unfold [of w ws p n cmd s] show ?thesis
    by blast
qed

theorem runProject_recursion_witness:
  "runProject_rel (posix False (Child None), 7, ''/p'', ''P'', ''npm install'', one_client)
                  (posix False (Child None), 7, ''/p'', ''P'', ''echo hi'', one_client)
   \<and> \<not> runProject_rel (posix False (Child None), 7, ''/p'', ''P'', ''npm install'', one_client)
                  (posix False (Child None), 7, ''/p'', ''P'', ''npm install'', one_client)"
proof -
  let ?w = "posix False (Child None)"
  have a: "\<not> map_of (runningProcesses one_client) ''/p'' \<noteq> None"
    by (simp add: one_client_def init_def)
  have b: "\<not> existsSync ?w (path_join ?w ''/p'' ''node_modules'') \<and> \<not> str_includes ''echo hi'' ''install''"
    by (simp add: posix_def)
  have rel: "runProject_rel (?w, 7, ''/p'', ''P'', ''npm install'', one_client)
                  (?w, 7, ''/p'', ''P'', ''echo hi'', one_client)"
    using a b by (rule runProject_rel.intros)
  from runProject_recursion [where x = "(?w, 7, ''/p'', ''P'', ''npm install'', one_client)"
      and y = "(?w, 7, ''/p'', ''P'', ''echo hi'', one_client)"
      and z = "(?w, 7, ''/p'', ''P'', ''npm install'', one_client)"] rel
  show ?thesis by blast
qed

end
